theory Spec2Isabelle
  imports Complex_Main
begin

section \<open>Swing-trade strategy simulator (tools/strategy\_simulator.py)\<close>

text \<open>
  The simulator computes with Python floats. They are modelled as \<^typ>\<open>real\<close>: every
  operation is exact, there is no rounding residue, no overflow and no NaN or infinity.
  The one failure Python float arithmetic has on finite operands, a division by zero,
  raises \<open>ZeroDivisionError\<close>; every division whose divisor can be zero is a branch of
  the model. The inputs at which a statement of the specification is refuted
  outright (zero or negative entry price, over-allocated stages) are small integers and
  dyadic fractions, on which binary floating point computes the same values. What would
  turn on a rounding residue in the program (whether two sums are exactly equal, the sign
  of a difference that exact arithmetic makes zero) is not stated of it.
\<close>

subsection \<open>Models\<close>

datatype py_error = ZeroDivisionError

record GradualLot =
  sell_percent :: real
  lot_tp_percent :: real
  lot_executed :: bool
  executed_at :: "string option"
  executed_price :: "real option"
  realized_pnl :: "real option"

record StrategyConfig =
  token :: string
  exchange :: string
  entry_price :: real
  tp_percent :: real
  sl_percent :: real
  fee_percent :: real
  gradual_enabled :: bool
  gradual_lots :: "GradualLot list"
  check_interval_min :: int

record LotResult =
  lot_index :: int
  lr_sell_percent :: real
  lr_tp_percent :: real
  lot_quantity :: real
  sell_price :: real
  gross_value :: real
  cost :: real
  gross_profit :: real
  fee :: real
  net_profit :: real
  net_return_pct :: real

text \<open>The scenario label is a formatted string in the source; its four shapes are kept
  as constructors (the two partial-exit labels carry \<open>lots_hit\<close>).\<close>

datatype scenario_label =
  Venda_Unica | Venda_Gradual | Parcial_lotes int | Parcial_TP_SL int

record SimulationResult =
  scenario :: scenario_label
  config :: StrategyConfig
  quantity :: real
  total_cost :: real
  lot_results :: "LotResult list"
  total_gross_profit :: real
  total_fees :: real
  total_net_profit :: real
  total_net_return_pct :: real
  sl_loss :: "real option"
  sl_return_pct :: "real option"
  risk_reward_ratio :: real

subsection \<open>Scenario engine\<close>

text \<open>\<open>StrategySimulator.__init__\<close>: the cost basis is fixed at construction.\<close>

definition init_total_cost :: "StrategyConfig \<Rightarrow> real \<Rightarrow> real" where
  "init_total_cost c q = entry_price c * q"

text \<open>A fresh \<open>SimulationResult\<close> with the dataclass defaults.\<close>

definition new_result :: "scenario_label \<Rightarrow> StrategyConfig \<Rightarrow> real \<Rightarrow> SimulationResult" where
  "new_result s c q =
     \<lparr>scenario = s, config = c, quantity = q, total_cost = init_total_cost c q,
      lot_results = [], total_gross_profit = 0, total_fees = 0, total_net_profit = 0,
      total_net_return_pct = 0, sl_loss = None, sl_return_pct = None,
      risk_reward_ratio = 0\<rparr>"

text \<open>The stop-loss price, \<open>sl_price = c.entry_price * (1 - c.sl_percent / 100)\<close>.\<close>

definition sl_price_of :: "StrategyConfig \<Rightarrow> real" where
  "sl_price_of c = entry_price c * (1 - sl_percent c / 100)"

text \<open>The pure stop-loss figure: the whole position sold at the stop-loss price.\<close>

definition pure_sl_loss :: "StrategyConfig \<Rightarrow> real \<Rightarrow> real" where
  "pure_sl_loss c q =
     (let sl_price = sl_price_of c;
          sl_value = q * sl_price;
          sl_loss_gross = sl_value - init_total_cost c q;
          sl_fee = sl_value * (fee_percent c / 100)
      in sl_loss_gross - sl_fee)"

text \<open>The risk/reward step: \<open>if sl_loss and abs(sl_loss) > 0\<close>, else the default 0.\<close>

definition risk_reward :: "real \<Rightarrow> real \<Rightarrow> real" where
  "risk_reward profit sl = (if sl \<noteq> 0 \<and> \<bar>sl\<bar> > 0 then \<bar>profit / sl\<bar> else 0)"

definition simulate_single_sell :: "StrategyConfig \<Rightarrow> real \<Rightarrow> py_error + SimulationResult" where
  "simulate_single_sell c q =
     (let tc = init_total_cost c q;
          price = entry_price c * (1 + tp_percent c / 100);
          gv = q * price;
          gp = gv - tc;
          f = gv * (fee_percent c / 100);
          np = gp - f
      in if tc = 0 then Inl ZeroDivisionError
         else
           let lot = \<lparr>lot_index = 0, lr_sell_percent = 100, lr_tp_percent = tp_percent c,
                      lot_quantity = q, sell_price = price, gross_value = gv, cost = tc,
                      gross_profit = gp, fee = f, net_profit = np,
                      net_return_pct = (np / tc) * 100\<rparr>;
               sl = pure_sl_loss c q
           in Inr ((new_result Venda_Unica c q)
                \<lparr>lot_results := [lot], total_gross_profit := gp, total_fees := f,
                 total_net_profit := np, total_net_return_pct := (np / tc) * 100,
                 sl_loss := Some sl, sl_return_pct := Some ((sl / tc) * 100),
                 risk_reward_ratio := risk_reward np sl\<rparr>))"

text \<open>The body shared by the stage loops of \<open>simulate_gradual_sell\<close> and
  \<open>simulate_partial_exit\<close>: one stage sold at its own take-profit price. The per-lot
  return divides by the lot's allocated cost. The products are exact here; the code rounds
  each, so its lot costs add up to the total cost times the percentages only up to a
  residue of the order of \<open>1e-16\<close> times the total cost.\<close>

definition sell_lot :: "StrategyConfig \<Rightarrow> real \<Rightarrow> nat \<Rightarrow> GradualLot \<Rightarrow> py_error + LotResult" where
  "sell_lot c q i lot_config =
     (let lot_pct = sell_percent lot_config / 100;
          lot_qty = q * lot_pct;
          lot_cost = init_total_cost c q * lot_pct;
          price = entry_price c * (1 + lot_tp_percent lot_config / 100);
          gv = lot_qty * price;
          gp = gv - lot_cost;
          f = gv * (fee_percent c / 100);
          np = gp - f
      in if lot_cost = 0 then Inl ZeroDivisionError
         else Inr \<lparr>lot_index = int i, lr_sell_percent = sell_percent lot_config,
                    lr_tp_percent = lot_tp_percent lot_config, lot_quantity = lot_qty,
                    sell_price = price, gross_value = gv, cost = lot_cost,
                    gross_profit = gp, fee = f, net_profit = np,
                    net_return_pct = (np / lot_cost) * 100\<rparr>)"

definition add_lot :: "LotResult \<Rightarrow> SimulationResult \<Rightarrow> SimulationResult" where
  "add_lot lot r =
     r\<lparr>lot_results := lot_results r @ [lot],
       total_gross_profit := total_gross_profit r + gross_profit lot,
       total_fees := total_fees r + fee lot,
       total_net_profit := total_net_profit r + net_profit lot\<rparr>"

text \<open>\<open>for i, lot_config in enumerate(c.gradual_lots)\<close>, from index \<open>i\<close> on.\<close>

fun sell_lots :: "StrategyConfig \<Rightarrow> real \<Rightarrow> nat \<Rightarrow> GradualLot list \<Rightarrow> SimulationResult
    \<Rightarrow> py_error + SimulationResult" where
  "sell_lots c q i [] r = Inr r"
| "sell_lots c q i (lc # ls) r =
     (case sell_lot c q i lc of
        Inl e \<Rightarrow> Inl e
      | Inr lot \<Rightarrow> sell_lots c q (Suc i) ls (add_lot lot r))"

definition simulate_gradual_sell :: "StrategyConfig \<Rightarrow> real \<Rightarrow> py_error + SimulationResult" where
  "simulate_gradual_sell c q =
     (let result = new_result Venda_Gradual c q
      in if gradual_lots c = [] then Inr result
         else case sell_lots c q 0 (gradual_lots c) result of
                Inl e \<Rightarrow> Inl e
              | Inr r \<Rightarrow>
                  let tc = init_total_cost c q; sl = pure_sl_loss c q
                  in if tc = 0 then Inl ZeroDivisionError
                     else Inr (r\<lparr>total_net_return_pct := (total_net_profit r / tc) * 100,
                                 sl_loss := Some sl, sl_return_pct := Some ((sl / tc) * 100),
                                 risk_reward_ratio := risk_reward (total_net_profit r) sl\<rparr>))"

text \<open>The first loop of \<open>simulate_partial_exit\<close> also sums the sold percentages.\<close>

fun hit_lots :: "StrategyConfig \<Rightarrow> real \<Rightarrow> nat \<Rightarrow> GradualLot list \<Rightarrow> SimulationResult \<times> real
    \<Rightarrow> py_error + SimulationResult \<times> real" where
  "hit_lots c q i [] rs = Inr rs"
| "hit_lots c q i (lc # ls) (r, sold_pct) =
     (case sell_lot c q i lc of
        Inl e \<Rightarrow> Inl e
      | Inr lot \<Rightarrow> hit_lots c q (Suc i) ls (add_lot lot r, sold_pct + sell_percent lc))"

text \<open>The closing stop-loss lot for what the executed stages left.\<close>

definition close_remaining :: "StrategyConfig \<Rightarrow> real \<Rightarrow> int \<Rightarrow> real \<Rightarrow> SimulationResult
    \<Rightarrow> py_error + SimulationResult" where
  "close_remaining c q lots_hit remaining_pct r =
     (if remaining_pct > 0.001 then
        let remaining_qty = q * remaining_pct;
            remaining_cost = init_total_cost c q * remaining_pct;
            sl_price = sl_price_of c;
            sl_value = remaining_qty * sl_price;
            sl_loss_gross = sl_value - remaining_cost;
            sl_fee = sl_value * (fee_percent c / 100);
            sl_net = sl_loss_gross - sl_fee
        in if remaining_cost = 0 then Inl ZeroDivisionError
           else Inr (add_lot
                  \<lparr>lot_index = lots_hit, lr_sell_percent = remaining_pct * 100,
                   lr_tp_percent = - sl_percent c, lot_quantity = remaining_qty,
                   sell_price = sl_price, gross_value = sl_value, cost = remaining_cost,
                   gross_profit = sl_loss_gross, fee = sl_fee, net_profit = sl_net,
                   net_return_pct = (sl_net / remaining_cost) * 100\<rparr> r)
      else Inr r)"

definition simulate_partial_exit :: "StrategyConfig \<Rightarrow> real \<Rightarrow> int \<Rightarrow> py_error + SimulationResult" where
  "simulate_partial_exit c q lots_hit =
     (if gradual_lots c = [] then Inr (new_result (Parcial_lotes lots_hit) c q)
      else
        let n = nat (min lots_hit (int (length (gradual_lots c))))
        in case hit_lots c q 0 (take n (gradual_lots c))
                  (new_result (Parcial_TP_SL lots_hit) c q, 0) of
             Inl e \<Rightarrow> Inl e
           | Inr (r, sold_pct) \<Rightarrow>
               (case close_remaining c q lots_hit ((100 - sold_pct) / 100) r of
                  Inl e \<Rightarrow> Inl e
                | Inr r' \<Rightarrow>
                    let tc = init_total_cost c q; sl = pure_sl_loss c q
                    in if tc = 0 then Inl ZeroDivisionError
                       else Inr (r'\<lparr>total_net_return_pct := (total_net_profit r' / tc) * 100,
                                    sl_loss := Some sl,
                                    sl_return_pct := Some ((sl / tc) * 100)\<rparr>)))"

subsection \<open>Price-series walker\<close>

text \<open>\<open>round(x, n)\<close> on a float: the nearest multiple of \<open>10 ^ -n\<close>, a tie going to the
  even neighbour.\<close>

definition py_round :: "real \<Rightarrow> nat \<Rightarrow> real" where
  "py_round x n =
     (let y = x * 10 ^ n; f = \<lfloor>y\<rfloor>; d = y - of_int f
      in of_int (if d < 1 / 2 then f else if 1 / 2 < d then f + 1
                 else if even f then f else f + 1) / 10 ^ n)"

text \<open>The per-call stage dictionaries \<open>{"sell_pct", "tp_pct", "executed"}\<close>.\<close>

record walk_lot =
  sell_pct :: real
  tp_pct :: real
  executed :: bool

datatype event_kind = STOP_LOSS | TP_LOT nat | TAKE_PROFIT

text \<open>A trade entry of the log; the key \<open>tp_pct\<close> is present in \<open>TP_LOT\<close> entries only.\<close>

record trade_event =
  ev_tick :: nat
  ev_price :: real
  ev_change_pct :: real
  event :: event_kind
  sell_qty :: real
  ev_sell_pct :: real
  ev_tp_pct :: "real option"
  gross_pnl :: real
  ev_fee :: real
  net_pnl :: real

datatype status = COMPLETED | OPEN

record summary =
  total_realized_pnl :: real
  sum_total_fees :: real
  sum_remaining_qty :: real
  remaining_pct :: real
  return_pct :: real
  sum_status :: status

datatype log_entry = Trade trade_event | SUMMARY summary

text \<open>The local variables of \<open>simulate_price_series\<close> that the loop updates.\<close>

record walker =
  lots :: "walk_lot list"
  remaining_qty :: real
  total_realized :: real
  walk_total_fees :: real
  events :: "log_entry list"

datatype flow = Continue | Break

definition change_pct :: "StrategyConfig \<Rightarrow> real \<Rightarrow> real" where
  "change_pct c price = ((price - entry_price c) / entry_price c) * 100"

text \<open>The stop-loss branch (it ends with \<open>break\<close>). It divides by the original quantity.\<close>

definition stop_loss_step :: "StrategyConfig \<Rightarrow> real \<Rightarrow> nat \<Rightarrow> real \<Rightarrow> walker \<Rightarrow> py_error + walker" where
  "stop_loss_step c q tick price w =
     (if q = 0 then Inl ZeroDivisionError
      else
        let sl_value = remaining_qty w * price;
            sl_cost = (remaining_qty w / q) * init_total_cost c q;
            sl_loss = sl_value - sl_cost;
            sl_fee = sl_value * (fee_percent c / 100);
            sl_net = sl_loss - sl_fee
        in Inr (w\<lparr>events := events w @
                    [Trade \<lparr>ev_tick = tick, ev_price = price,
                            ev_change_pct = py_round (change_pct c price) 2,
                            event = STOP_LOSS,
                            sell_qty = py_round (remaining_qty w) 8,
                            ev_sell_pct = py_round ((remaining_qty w / q) * 100) 1,
                            ev_tp_pct = None,
                            gross_pnl = py_round sl_loss 2, ev_fee = py_round sl_fee 2,
                            net_pnl = py_round sl_net 2\<rparr>],
                  total_realized := total_realized w + sl_net,
                  walk_total_fees := walk_total_fees w + sl_fee,
                  remaining_qty := 0\<rparr>))"

text \<open>The inner \<open>for i, lot in enumerate(lots)\<close>: executed stages are skipped, the scan
  stops at the first pending stage whose threshold is reached.\<close>

fun scan_lots :: "real \<Rightarrow> nat \<Rightarrow> walk_lot list \<Rightarrow> (nat \<times> walk_lot) option" where
  "scan_lots change i [] = None"
| "scan_lots change i (lot # ls) =
     (if executed lot then scan_lots change (Suc i) ls
      else if change \<ge> tp_pct lot then Some (i, lot)
      else scan_lots change (Suc i) ls)"

text \<open>The body run for the stage the scan stops at. The subtraction from
  \<open>remaining_qty\<close> is exact here; the code's leaves a rounding residue of the order of
  \<open>1e-17\<close> times the quantity, so that stages summing to 100 can end just below or just
  above zero where this definition gives zero.\<close>

definition fire_lot :: "StrategyConfig \<Rightarrow> real \<Rightarrow> nat \<Rightarrow> real \<Rightarrow> nat \<Rightarrow> walk_lot \<Rightarrow> walker \<Rightarrow> walker" where
  "fire_lot c q tick price i lot w =
     (let lot_pct = sell_pct lot / 100;
          lot_qty = q * lot_pct;
          lot_cost = init_total_cost c q * lot_pct;
          sell_value = lot_qty * price;
          profit = sell_value - lot_cost;
          f = sell_value * (fee_percent c / 100);
          net = profit - f
      in w\<lparr>lots := (lots w)[i := lot\<lparr>executed := True\<rparr>],
           remaining_qty := remaining_qty w - lot_qty,
           total_realized := total_realized w + net,
           walk_total_fees := walk_total_fees w + f,
           events := events w @
             [Trade \<lparr>ev_tick = tick, ev_price = price,
                     ev_change_pct = py_round (change_pct c price) 2,
                     event = TP_LOT (i + 1),
                     sell_qty = py_round lot_qty 8,
                     ev_sell_pct = sell_pct lot,
                     ev_tp_pct = Some (tp_pct lot),
                     gross_pnl = py_round profit 2, ev_fee = py_round f 2,
                     net_pnl = py_round net 2\<rparr>]\<rparr>)"

definition tp_lots_step :: "StrategyConfig \<Rightarrow> real \<Rightarrow> nat \<Rightarrow> real \<Rightarrow> walker \<Rightarrow> walker" where
  "tp_lots_step c q tick price w =
     (case scan_lots (change_pct c price) 0 (lots w) of
        None \<Rightarrow> w
      | Some (i, lot) \<Rightarrow> fire_lot c q tick price i lot w)"

text \<open>The single take-profit branch (no stages; it ends with \<open>break\<close>).\<close>

definition take_profit_step :: "StrategyConfig \<Rightarrow> real \<Rightarrow> nat \<Rightarrow> real \<Rightarrow> walker \<Rightarrow> walker" where
  "take_profit_step c q tick price w =
     (let sell_value = remaining_qty w * price;
          profit = sell_value - init_total_cost c q;
          f = sell_value * (fee_percent c / 100);
          net = profit - f
      in w\<lparr>events := events w @
             [Trade \<lparr>ev_tick = tick, ev_price = price,
                     ev_change_pct = py_round (change_pct c price) 2,
                     event = TAKE_PROFIT,
                     sell_qty = py_round (remaining_qty w) 8,
                     ev_sell_pct = 100,
                     ev_tp_pct = None,
                     gross_pnl = py_round profit 2, ev_fee = py_round f 2,
                     net_pnl = py_round net 2\<rparr>],
           total_realized := total_realized w + net,
           walk_total_fees := walk_total_fees w + f,
           remaining_qty := 0\<rparr>)"

text \<open>The last statement of the loop body: \<open>if remaining_qty <= 0.0001: break\<close>.\<close>

definition check_done :: "walker \<Rightarrow> flow \<times> walker" where
  "check_done w = (if remaining_qty w \<le> 0.0001 then (Break, w) else (Continue, w))"

text \<open>One iteration of \<open>for tick, price in enumerate(prices)\<close>.\<close>

definition tick_step :: "StrategyConfig \<Rightarrow> real \<Rightarrow> nat \<Rightarrow> real \<Rightarrow> walker \<Rightarrow> py_error + flow \<times> walker" where
  "tick_step c q tick price w =
     (if entry_price c = 0 then Inl ZeroDivisionError
      else if change_pct c price \<le> - sl_percent c \<and> remaining_qty w > 0.0001 then
        (case stop_loss_step c q tick price w of
           Inl e \<Rightarrow> Inl e
         | Inr w' \<Rightarrow> Inr (Break, w'))
      else if lots w \<noteq> [] then Inr (check_done (tp_lots_step c q tick price w))
      else if change_pct c price \<ge> tp_percent c \<and> remaining_qty w > 0.0001 then
        Inr (Break, take_profit_step c q tick price w)
      else Inr (check_done w))"

text \<open>The loop over the prices from tick index \<open>tick\<close> on. The flow tells whether the loop
  was left by a \<open>break\<close> or by exhausting the prices.\<close>

fun walk :: "StrategyConfig \<Rightarrow> real \<Rightarrow> nat \<Rightarrow> real list \<Rightarrow> walker \<Rightarrow> py_error + flow \<times> walker" where
  "walk c q tick [] w = Inr (Continue, w)"
| "walk c q tick (price # ps) w =
     (case tick_step c q tick price w of
        Inl e \<Rightarrow> Inl e
      | Inr (Break, w') \<Rightarrow> Inr (Break, w')
      | Inr (Continue, w') \<Rightarrow> walk c q (Suc tick) ps w')"

definition init_walker :: "StrategyConfig \<Rightarrow> real \<Rightarrow> walker" where
  "init_walker c q =
     \<lparr>lots = map (\<lambda>l. \<lparr>sell_pct = sell_percent l, tp_pct = lot_tp_percent l,
                        executed = False\<rparr>) (gradual_lots c),
      remaining_qty = q, total_realized = 0, walk_total_fees = 0, events = []\<rparr>"

definition make_summary :: "StrategyConfig \<Rightarrow> real \<Rightarrow> walker \<Rightarrow> summary" where
  "make_summary c q w =
     \<lparr>total_realized_pnl = py_round (total_realized w) 2,
      sum_total_fees = py_round (walk_total_fees w) 2,
      sum_remaining_qty = py_round (remaining_qty w) 8,
      remaining_pct = (if q > 0 then py_round ((remaining_qty w / q) * 100) 1 else 0),
      return_pct = (if init_total_cost c q > 0
                    then py_round ((total_realized w / init_total_cost c q) * 100) 2 else 0),
      sum_status = (if remaining_qty w \<le> 0.0001 then COMPLETED else OPEN)\<rparr>"

definition simulate_price_series :: "StrategyConfig \<Rightarrow> real \<Rightarrow> real list \<Rightarrow> py_error + log_entry list" where
  "simulate_price_series c q prices =
     (case walk c q 0 prices (init_walker c q) of
        Inl e \<Rightarrow> Inl e
      | Inr (fl, w) \<Rightarrow> Inr (events w @ [SUMMARY (make_summary c q w)]))"

subsection \<open>Payload adapter\<close>

text \<open>The payload is a nest of Python dicts and lists; a dict keeps insertion order.\<close>

datatype json =
  JString string | JInt int | JNumber real | JBool bool
| JArray "json list" | JObject "(string \<times> json) list"

fun field :: "string \<Rightarrow> json \<Rightarrow> json option" where
  "field k (JObject kvs) = map_of kvs k"
| "field k j = None"

definition lot_payload :: "GradualLot \<Rightarrow> json" where
  "lot_payload lot =
     JObject [(''sell_percent'', JNumber (sell_percent lot)),
              (''tp_percent'', JNumber (lot_tp_percent lot)),
              (''executed'', JBool False)]"

definition generate_api_payload :: "StrategyConfig \<Rightarrow> json" where
  "generate_api_payload c =
     (let base_config =
            [(''fee_percent'', JNumber (fee_percent c)),
             (''stop_loss'', JObject [(''enabled'', JBool True),
                                      (''percent'', JNumber (sl_percent c)),
                                      (''trailing'', JBool False)]),
             (''mode'', JString ''spot'')];
          extra =
            (if gradual_enabled c \<and> gradual_lots c \<noteq> [] then
               (''gradual_sell'',
                JObject [(''enabled'', JBool True),
                         (''lots'', JArray (map lot_payload (gradual_lots c)))])
             else
               (''take_profit_levels'',
                JArray [JObject [(''percent'', JNumber (tp_percent c)),
                                 (''sell_percent'', JNumber 100),
                                 (''executed'', JBool False)]]))
      in JObject
           [(''name'', JString (takeWhile (\<lambda>ch. ch \<noteq> CHR ''/'') (token c) @ '' Swing '' @
                                (if gradual_enabled c then ''Gradual'' else ''Simple''))),
            (''strategy_type'', JString ''swing_trade''),
            (''symbol'', JString (token c)),
            (''exchange_id'', JString ''seu_exchange_id''),
            (''exchange_name'', JString (exchange c)),
            (''check_interval_secs'', JInt (check_interval_min c * 60)),
            (''config'', JObject (base_config @ [extra]))])"

subsection \<open>Concrete inputs and observations\<close>

text \<open>\<open>StrategyConfig()\<close> with the dataclass defaults, and \<open>GradualLot(sp, tp)\<close>.\<close>

definition default_config :: StrategyConfig where
  "default_config =
     \<lparr>token = ''SOL/USDT'', exchange = ''OKX'', entry_price = 36, tp_percent = 10,
      sl_percent = 5, fee_percent = 5 / 10, gradual_enabled = False, gradual_lots = [],
      check_interval_min = 15\<rparr>"

definition mk_lot :: "real \<Rightarrow> real \<Rightarrow> GradualLot" where
  "mk_lot sp tp =
     \<lparr>sell_percent = sp, lot_tp_percent = tp, lot_executed = False, executed_at = None,
      executed_price = None, realized_pnl = None\<rparr>"

text \<open>\<open>x\<close> is the number \<open>v\<close> when both are written with \<open>n\<close> decimals, up to half a unit
  of the last one.\<close>

definition approx :: "real \<Rightarrow> real \<Rightarrow> nat \<Rightarrow> bool" where
  "approx x v n = (\<bar>x - v\<bar> \<le> 5 / 10 ^ (n + 1))"


text \<open>Inputs the properties below are evaluated at.\<close>

definition no_risk_config :: StrategyConfig where
  "no_risk_config = default_config\<lparr>entry_price := 1, sl_percent := 0, fee_percent := 0\<rparr>"

definition two_stage_config :: StrategyConfig where
  "two_stage_config =
     default_config\<lparr>entry_price := 100, gradual_enabled := True,
                    gradual_lots := [mk_lot 50 10, mk_lot 50 20]\<rparr>"


definition negative_entry_config :: StrategyConfig where
  "negative_entry_config =
     default_config\<lparr>entry_price := - 4, tp_percent := 50, sl_percent := 25, fee_percent := 0\<rparr>"

definition zero_entry_config :: StrategyConfig where
  "zero_entry_config = default_config\<lparr>entry_price := 0\<rparr>"


fun is_stop_loss :: "log_entry \<Rightarrow> bool" where
  "is_stop_loss (Trade t) = (event t = STOP_LOSS)"
| "is_stop_loss (SUMMARY s) = False"

fun is_summary :: "log_entry \<Rightarrow> bool" where
  "is_summary (Trade t) = False"
| "is_summary (SUMMARY s) = True"



section \<open>Properties\<close>

subsection \<open>Stage loop of the scenario engine\<close>

lemma sell_lot_returns:
  "init_total_cost c q \<noteq> 0 \<Longrightarrow> sell_percent l \<noteq> 0 \<Longrightarrow> \<exists>lot. sell_lot c q i l = Inr lot"
  by (simp add: sell_lot_def Let_def)

lemma sell_lots_returns:
  "init_total_cost c q \<noteq> 0 \<Longrightarrow> \<forall>l\<in>set ls. sell_percent l \<noteq> 0 \<Longrightarrow>
   \<exists>r'. sell_lots c q i ls r = Inr r'"
proof (induction ls arbitrary: i r)
  case Nil
  show ?case by simp
next
  case (Cons l ls)
  from Cons.prems obtain lot where "sell_lot c q i l = Inr lot"
    using sell_lot_returns [of c q l i] by auto
  with Cons show ?case by simp
qed




lemma single_sell_Inr:
  "simulate_single_sell c q = Inr r \<Longrightarrow>
   init_total_cost c q \<noteq> 0 \<and> sl_loss r = Some (pure_sl_loss c q) \<and>
   risk_reward_ratio r = risk_reward (total_net_profit r) (pure_sl_loss c q)"
  unfolding simulate_single_sell_def Let_def new_result_def
  by (cases "init_total_cost c q = 0") auto

lemma gradual_sell_Inr:
  assumes "gradual_lots c \<noteq> []" and "simulate_gradual_sell c q = Inr r"
  shows "\<exists>r0. sell_lots c q 0 (gradual_lots c) (new_result Venda_Gradual c q) = Inr r0 \<and>
     init_total_cost c q \<noteq> 0 \<and>
     r = r0\<lparr>total_net_return_pct := (total_net_profit r0 / init_total_cost c q) * 100,
            sl_loss := Some (pure_sl_loss c q),
            sl_return_pct := Some ((pure_sl_loss c q / init_total_cost c q) * 100),
            risk_reward_ratio := risk_reward (total_net_profit r0) (pure_sl_loss c q)\<rparr>"
proof (cases "sell_lots c q 0 (gradual_lots c) (new_result Venda_Gradual c q)")
  case (Inl e)
  with assms show ?thesis by (simp add: simulate_gradual_sell_def Let_def)
next
  case (Inr r0)
  with assms show ?thesis
    by (cases "init_total_cost c q = 0") (simp_all add: simulate_gradual_sell_def Let_def)
qed

lemma risk_reward_abs: "risk_reward p s = (if \<bar>s\<bar> > 0 then \<bar>p / s\<bar> else 0)"
  by (simp add: risk_reward_def)

lemmas engine_defs =
  simulate_single_sell_def simulate_gradual_sell_def sell_lot_def add_lot_def
  init_total_cost_def new_result_def pure_sl_loss_def sl_price_of_def risk_reward_def
  default_config_def mk_lot_def Let_def

subsection \<open>The worked example of the single sell\<close>

text \<open>
  C6 (as amended). For the default configuration (entry 36, TP 10, SL 5, fee 0.5) and
  quantity 0.44, \<open>simulate_single_sell\<close> returns total cost 15.84, sell price 39.6, gross
  proceeds 17.424, fee 0.08712, net profit 1.49688 and net return 9.45 percent (exactly,
  not 9.4503); the stop-loss price is 34.2, the stop-loss net loss -0.86724, its return
  -5.475 percent, and the risk/reward ratio is 126/73, which is 1.726 to three decimals.
\<close>

theorem single_sell_example:
  "\<exists>r lot. simulate_single_sell default_config (44 / 100) = Inr r \<and> lot_results r = [lot] \<and>
     total_cost r = 15.84 \<and> sell_price lot = 39.6 \<and> gross_value lot = 17.424 \<and>
     fee lot = 0.08712 \<and> total_fees r = 0.08712 \<and>
     net_profit lot = 1.49688 \<and> total_net_profit r = 1.49688 \<and>
     net_return_pct lot = 9.45 \<and> total_net_return_pct r = 9.45 \<and>
     sl_price_of default_config = 34.2 \<and> sl_loss r = Some (- 0.86724) \<and>
     sl_return_pct r = Some (- 5.475) \<and> risk_reward_ratio r = 126 / 73 \<and>
     approx (risk_reward_ratio r) 1.726 3"
  by (simp add: engine_defs approx_def)

text \<open>
  C6 as stated fails in one figure: the net return percent is 9.45, which is not 9.4503 at
  the four decimals the claim gives.
\<close>

theorem single_sell_return_pct_counterexample:
  "map_sum id total_net_return_pct (simulate_single_sell default_config (44 / 100))
     = Inr (945 / 100) \<and> \<not> approx (945 / 100) 9.4503 4"
  by (simp add: engine_defs approx_def)

subsection \<open>Risk/reward ratio\<close>

text \<open>
  C7. Whenever \<open>simulate_single_sell\<close> or \<open>simulate_gradual_sell\<close> returns a result, its
  risk/reward ratio is the absolute value of net profit over \<open>sl_loss\<close> when the magnitude of
  \<open>sl_loss\<close> exceeds the threshold (which is 0), and 0 otherwise (also when \<open>sl_loss\<close> is
  unset). A stop-loss figure of magnitude zero is no error: the single sell then returns a
  result with ratio 0.
\<close>

theorem risk_reward_ratio_rule:
  "(simulate_single_sell c q = Inr r \<longrightarrow>
      (\<exists>s. sl_loss r = Some s \<and>
           risk_reward_ratio r = (if \<bar>s\<bar> > 0 then \<bar>total_net_profit r / s\<bar> else 0))) \<and>
   (simulate_gradual_sell c q = Inr r \<longrightarrow>
      risk_reward_ratio r =
        (case sl_loss r of None \<Rightarrow> 0
         | Some s \<Rightarrow> if \<bar>s\<bar> > 0 then \<bar>total_net_profit r / s\<bar> else 0)) \<and>
   (init_total_cost c q \<noteq> 0 \<and> pure_sl_loss c q = 0 \<longrightarrow>
      (\<exists>r'. simulate_single_sell c q = Inr r' \<and> sl_loss r' = Some 0 \<and>
            risk_reward_ratio r' = 0))"
proof (intro conjI impI)
  assume "simulate_single_sell c q = Inr r"
  from single_sell_Inr [OF this]
  show "\<exists>s. sl_loss r = Some s \<and>
           risk_reward_ratio r = (if \<bar>s\<bar> > 0 then \<bar>total_net_profit r / s\<bar> else 0)"
    by (simp add: risk_reward_abs)
next
  assume g: "simulate_gradual_sell c q = Inr r"
  show "risk_reward_ratio r =
        (case sl_loss r of None \<Rightarrow> 0
         | Some s \<Rightarrow> if \<bar>s\<bar> > 0 then \<bar>total_net_profit r / s\<bar> else 0)"
  proof (cases "gradual_lots c = []")
    case True
    with g show ?thesis by (auto simp: simulate_gradual_sell_def Let_def new_result_def)
  next
    case False
    from gradual_sell_Inr [OF False g] show ?thesis
      by (auto simp: risk_reward_abs)
  qed
next
  assume "init_total_cost c q \<noteq> 0 \<and> pure_sl_loss c q = 0"
  then show "\<exists>r'. simulate_single_sell c q = Inr r' \<and> sl_loss r' = Some 0 \<and>
      risk_reward_ratio r' = 0"
    by (simp add: simulate_single_sell_def Let_def new_result_def risk_reward_def)
qed

theorem risk_reward_ratio_rule_witness:
  "simulate_single_sell default_config (44 / 100)
     = Inr (projr (simulate_single_sell default_config (44 / 100))) \<and>
   risk_reward_ratio (projr (simulate_single_sell default_config (44 / 100))) = 126 / 73 \<and>
   simulate_gradual_sell two_stage_config 1
     = Inr (projr (simulate_gradual_sell two_stage_config 1)) \<and>
   risk_reward_ratio (projr (simulate_gradual_sell two_stage_config 1)) = 577 / 219 \<and>
   (init_total_cost no_risk_config 1 \<noteq> 0 \<and> pure_sl_loss no_risk_config 1 = 0) \<and>
   (\<exists>r'. simulate_single_sell no_risk_config 1 = Inr r' \<and> sl_loss r' = Some 0 \<and>
      risk_reward_ratio r' = 0)"
proof -
  let ?r1 = "projr (simulate_single_sell default_config (44 / 100))"
  let ?r2 = "projr (simulate_gradual_sell two_stage_config 1)"
  have h1: "simulate_single_sell default_config (44 / 100) = Inr ?r1"
    by (simp add: engine_defs)
  have h2: "simulate_gradual_sell two_stage_config 1 = Inr ?r2"
    by (simp add: engine_defs two_stage_config_def)
  have h3: "init_total_cost no_risk_config 1 \<noteq> 0 \<and> pure_sl_loss no_risk_config 1 = 0"
    by (simp add: engine_defs no_risk_config_def)
  have v1: "sl_loss ?r1 = Some (- 0.86724)" "total_net_profit ?r1 = 1.49688"
    by (simp_all add: engine_defs)
  have v2: "sl_loss ?r2 = Some (- (219 / 40))" "total_net_profit ?r2 = 577 / 40"
    by (simp_all add: engine_defs two_stage_config_def)
  from risk_reward_ratio_rule [of default_config "44 / 100" ?r1] h1 v1
  have c1: "risk_reward_ratio ?r1 = 126 / 73" by simp
  from risk_reward_ratio_rule [of two_stage_config 1 ?r2] h2 v2
  have c2: "risk_reward_ratio ?r2 = 577 / 219" by simp
  from risk_reward_ratio_rule [of no_risk_config 1] h3
  have c3: "\<exists>r'. simulate_single_sell no_risk_config 1 = Inr r' \<and> sl_loss r' = Some 0 \<and>
      risk_reward_ratio r' = 0" by blast
  from h1 h2 h3 c1 c2 c3 show ?thesis by blast
qed

subsection \<open>Payload adapter\<close>

text \<open>
  C9. For every configuration the payload has \<open>check_interval_secs\<close> equal to
  \<open>check_interval_min\<close> times 60 and a \<open>config\<close> object. When staged mode is active
  (\<open>gradual_enabled\<close> is set and at least one stage is configured), that object has a
  \<open>gradual_sell\<close> entry with \<open>enabled\<close> true and the list of the configured stages in
  order, each as \<open>{sell_percent, tp_percent, executed: false}\<close>, and no
  \<open>take_profit_levels\<close>; otherwise it has a \<open>take_profit_levels\<close> list of the one entry
  \<open>{percent: tp_percent, sell_percent: 100.0, executed: false}\<close> and no \<open>gradual_sell\<close>.
\<close>

theorem api_payload_shape:
  "field ''check_interval_secs'' (generate_api_payload c) = Some (JInt (check_interval_min c * 60)) \<and>
   (\<exists>cfg. field ''config'' (generate_api_payload c) = Some (JObject cfg) \<and>
      (if gradual_enabled c \<and> gradual_lots c \<noteq> [] then
         map_of cfg ''gradual_sell'' =
           Some (JObject [(''enabled'', JBool True),
                          (''lots'', JArray (map (\<lambda>l. JObject [(''sell_percent'', JNumber (sell_percent l)),
                                                               (''tp_percent'', JNumber (lot_tp_percent l)),
                                                               (''executed'', JBool False)])
                                             (gradual_lots c)))]) \<and>
         map_of cfg ''take_profit_levels'' = None
       else
         map_of cfg ''take_profit_levels'' =
           Some (JArray [JObject [(''percent'', JNumber (tp_percent c)),
                                  (''sell_percent'', JNumber 100),
                                  (''executed'', JBool False)]]) \<and>
         map_of cfg ''gradual_sell'' = None))"
  by (simp add: generate_api_payload_def Let_def lot_payload_def)

subsection \<open>Gradual sell without stages\<close>

text \<open>
  C10. With an empty stage list \<open>simulate_gradual_sell\<close> returns the quantity and the total
  cost, an empty lot list, zero totals, risk/reward ratio 0, and \<open>sl_loss\<close> and
  \<open>sl_return_pct\<close> unset. With a non-empty stage list every returned result has both set
  to the pure stop-loss figure, and a result is returned whenever the total cost and every
  stage percentage are non-zero.
\<close>

theorem gradual_sell_no_stages:
  "(gradual_lots c = [] \<longrightarrow>
      simulate_gradual_sell c q =
        Inr \<lparr>scenario = Venda_Gradual, config = c, quantity = q, total_cost = entry_price c * q,
             lot_results = [], total_gross_profit = 0, total_fees = 0, total_net_profit = 0,
             total_net_return_pct = 0, sl_loss = None, sl_return_pct = None,
             risk_reward_ratio = 0\<rparr>) \<and>
   (gradual_lots c \<noteq> [] \<and> simulate_gradual_sell c q = Inr r \<longrightarrow>
      sl_loss r = Some (pure_sl_loss c q) \<and>
      sl_return_pct r = Some (pure_sl_loss c q / (entry_price c * q) * 100)) \<and>
   (gradual_lots c \<noteq> [] \<and> entry_price c * q \<noteq> 0 \<and>
    (\<forall>l\<in>set (gradual_lots c). sell_percent l \<noteq> 0) \<longrightarrow>
      (\<exists>r'. simulate_gradual_sell c q = Inr r'))"
proof -
  have p1: "simulate_gradual_sell c q =
        Inr \<lparr>scenario = Venda_Gradual, config = c, quantity = q, total_cost = entry_price c * q,
             lot_results = [], total_gross_profit = 0, total_fees = 0, total_net_profit = 0,
             total_net_return_pct = 0, sl_loss = None, sl_return_pct = None,
             risk_reward_ratio = 0\<rparr>" if "gradual_lots c = []"
    using that
    by (simp add: simulate_gradual_sell_def new_result_def init_total_cost_def Let_def)
  have p2: "sl_loss r = Some (pure_sl_loss c q) \<and>
      sl_return_pct r = Some (pure_sl_loss c q / (entry_price c * q) * 100)"
    if "gradual_lots c \<noteq> []" and "simulate_gradual_sell c q = Inr r"
    using gradual_sell_Inr [OF that] by (auto simp: init_total_cost_def)
  have p3: "\<exists>r'. simulate_gradual_sell c q = Inr r'"
    if a: "gradual_lots c \<noteq> []" "entry_price c * q \<noteq> 0"
      "\<forall>l\<in>set (gradual_lots c). sell_percent l \<noteq> 0"
  proof -
    from a have tc: "init_total_cost c q \<noteq> 0" by (simp add: init_total_cost_def)
    from a sell_lots_returns [OF tc, of "gradual_lots c" 0 "new_result Venda_Gradual c q"]
    obtain r0 where "sell_lots c q 0 (gradual_lots c) (new_result Venda_Gradual c q) = Inr r0"
      by blast
    with a tc show ?thesis
      by (simp add: simulate_gradual_sell_def Let_def)
  qed
  from p1 p2 p3 show ?thesis by blast
qed

theorem gradual_sell_no_stages_witness:
  "gradual_lots default_config = [] \<and>
   simulate_gradual_sell default_config (44 / 100) =
     Inr \<lparr>scenario = Venda_Gradual, config = default_config, quantity = 44 / 100,
          total_cost = entry_price default_config * (44 / 100),
          lot_results = [], total_gross_profit = 0, total_fees = 0, total_net_profit = 0,
          total_net_return_pct = 0, sl_loss = None, sl_return_pct = None,
          risk_reward_ratio = 0\<rparr> \<and>
   (gradual_lots two_stage_config \<noteq> [] \<and>
    simulate_gradual_sell two_stage_config 1 = Inr (projr (simulate_gradual_sell two_stage_config 1))) \<and>
   sl_loss (projr (simulate_gradual_sell two_stage_config 1)) = Some (- (219 / 40)) \<and>
   sl_return_pct (projr (simulate_gradual_sell two_stage_config 1)) = Some (- (219 / 40)) \<and>
   (entry_price two_stage_config * 1 \<noteq> 0 \<and>
    list_all (\<lambda>l. sell_percent l \<noteq> 0) (gradual_lots two_stage_config)) \<and>
   (\<exists>r'. simulate_gradual_sell two_stage_config 1 = Inr r')"
proof -
  let ?r2 = "projr (simulate_gradual_sell two_stage_config 1)"
  have h1: "gradual_lots default_config = []" by (simp add: default_config_def)
  have h2: "gradual_lots two_stage_config \<noteq> [] \<and> simulate_gradual_sell two_stage_config 1 = Inr ?r2"
    by (simp add: engine_defs two_stage_config_def)
  have h3: "gradual_lots two_stage_config \<noteq> [] \<and> entry_price two_stage_config * 1 \<noteq> 0 \<and>
    (\<forall>l\<in>set (gradual_lots two_stage_config). sell_percent l \<noteq> 0)"
    by (simp add: two_stage_config_def default_config_def mk_lot_def)
  have v: "pure_sl_loss two_stage_config 1 = - (219 / 40)" "entry_price two_stage_config = 100"
    by (simp_all add: engine_defs two_stage_config_def)
  from gradual_sell_no_stages [of default_config "44 / 100"] h1
  have c1: "simulate_gradual_sell default_config (44 / 100) =
     Inr \<lparr>scenario = Venda_Gradual, config = default_config, quantity = 44 / 100,
          total_cost = entry_price default_config * (44 / 100),
          lot_results = [], total_gross_profit = 0, total_fees = 0, total_net_profit = 0,
          total_net_return_pct = 0, sl_loss = None, sl_return_pct = None,
          risk_reward_ratio = 0\<rparr>" by blast
  from gradual_sell_no_stages [of two_stage_config 1 ?r2] h2 v
  have c2: "sl_loss ?r2 = Some (- (219 / 40)) \<and> sl_return_pct ?r2 = Some (- (219 / 40))"
    by simp
  from gradual_sell_no_stages [of two_stage_config 1] h3
  have c3: "\<exists>r'. simulate_gradual_sell two_stage_config 1 = Inr r'" by blast
  from h1 h2 h3 c1 c2 c3 show ?thesis by (simp add: list_all_iff)
qed

subsection \<open>Allocated cost of the gradual sell\<close>







subsection \<open>Degenerate configurations\<close>

lemma partial_exit_zero_cost:
  assumes "init_total_cost c q = 0" and "gradual_lots c \<noteq> []"
  shows "simulate_partial_exit c q n = Inl ZeroDivisionError"
proof (cases "nat (min n (int (length (gradual_lots c))))")
  case 0
  with assms show ?thesis
    by (simp add: simulate_partial_exit_def Let_def close_remaining_def)
next
  case (Suc k)
  from assms(2) obtain l ls where "gradual_lots c = l # ls" by (cases "gradual_lots c") auto
  with Suc assms(1) show ?thesis
    by (simp add: simulate_partial_exit_def Let_def sell_lot_def)
qed

lemma gradual_sell_zero_cost:
  assumes "init_total_cost c q = 0" and "gradual_lots c \<noteq> []"
  shows "simulate_gradual_sell c q = Inl ZeroDivisionError"
proof -
  from assms(2) obtain l ls where "gradual_lots c = l # ls" by (cases "gradual_lots c") auto
  with assms(1) show ?thesis
    by (simp add: simulate_gradual_sell_def Let_def sell_lot_def)
qed

text \<open>
  C3 (as amended). The core validates nothing and has no invalid-configuration error. For
  a zero entry price or a zero quantity the total cost is zero and the operations fail
  with Python's \<open>ZeroDivisionError\<close>: \<open>simulate_single_sell\<close> always,
  \<open>simulate_gradual_sell\<close> and \<open>simulate_partial_exit\<close> when the stage list is non-empty,
  \<open>simulate_price_series\<close> when the entry price is zero and the price list is non-empty.
  For a negative entry price and a non-zero quantity \<open>simulate_single_sell\<close> returns a
  result.
\<close>

theorem degenerate_configuration:
  "(entry_price c = 0 \<or> q = 0 \<longrightarrow>
      simulate_single_sell c q = Inl ZeroDivisionError \<and>
      (gradual_lots c \<noteq> [] \<longrightarrow>
         simulate_gradual_sell c q = Inl ZeroDivisionError \<and>
         simulate_partial_exit c q n = Inl ZeroDivisionError)) \<and>
   (entry_price c = 0 \<and> prices \<noteq> [] \<longrightarrow>
      simulate_price_series c q prices = Inl ZeroDivisionError) \<and>
   (entry_price c < 0 \<and> q \<noteq> 0 \<longrightarrow> (\<exists>r. simulate_single_sell c q = Inr r))"
proof -
  have p1: "simulate_single_sell c q = Inl ZeroDivisionError" if "init_total_cost c q = 0"
    using that by (simp add: simulate_single_sell_def Let_def)
  have p2: "simulate_price_series c q prices = Inl ZeroDivisionError"
    if "entry_price c = 0" "prices \<noteq> []"
  proof -
    from that(2) obtain p ps where "prices = p # ps" by (cases prices) auto
    with that(1) show ?thesis
      by (simp add: simulate_price_series_def tick_step_def)
  qed
  have p3: "\<exists>r. simulate_single_sell c q = Inr r" if "entry_price c < 0" "q \<noteq> 0"
    using that by (simp add: simulate_single_sell_def Let_def init_total_cost_def)
  have z: "init_total_cost c q = 0" if "entry_price c = 0 \<or> q = 0"
    using that by (auto simp: init_total_cost_def)
  from p1 p2 p3 z gradual_sell_zero_cost [of c q] partial_exit_zero_cost [of c q n]
  show ?thesis by blast
qed

theorem degenerate_configuration_witness:
  "(entry_price zero_entry_config = 0 \<or> (1::real) = 0) \<and>
   simulate_single_sell zero_entry_config 1 = Inl ZeroDivisionError \<and>
   (entry_price two_stage_config = 0 \<or> (0::real) = 0) \<and>
   gradual_lots two_stage_config \<noteq> [] \<and>
   simulate_single_sell two_stage_config 0 = Inl ZeroDivisionError \<and>
   simulate_gradual_sell two_stage_config 0 = Inl ZeroDivisionError \<and>
   simulate_partial_exit two_stage_config 0 1 = Inl ZeroDivisionError \<and>
   (entry_price zero_entry_config = 0 \<and> [1 :: real] \<noteq> []) \<and>
   simulate_price_series zero_entry_config 1 [1] = Inl ZeroDivisionError \<and>
   (entry_price negative_entry_config < 0 \<and> (1::real) \<noteq> 0) \<and>
   (\<exists>r. simulate_single_sell negative_entry_config 1 = Inr r)"
proof -
  have h1: "entry_price zero_entry_config = 0 \<or> (1::real) = 0"
    by (simp add: zero_entry_config_def two_stage_config_def negative_entry_config_def default_config_def)
  have h2: "entry_price two_stage_config = 0 \<or> (0::real) = 0" by simp
  have h3: "gradual_lots two_stage_config \<noteq> []"
    by (simp add: zero_entry_config_def two_stage_config_def negative_entry_config_def default_config_def)
  have h4: "entry_price zero_entry_config = 0 \<and> [1 :: real] \<noteq> []"
    by (simp add: zero_entry_config_def two_stage_config_def negative_entry_config_def default_config_def)
  have h5: "entry_price negative_entry_config < 0 \<and> (1::real) \<noteq> 0"
    by (simp add: zero_entry_config_def two_stage_config_def negative_entry_config_def default_config_def)
  note t1 = degenerate_configuration [of zero_entry_config 1 0 "[1]"]
  note t2 = degenerate_configuration [of two_stage_config 0 1 "[]"]
  note t3 = degenerate_configuration [of negative_entry_config 1 0 "[]"]
  from t1 h1 have c1: "simulate_single_sell zero_entry_config 1 = Inl ZeroDivisionError"
    by blast
  from t2 h2 h3 have c2: "simulate_single_sell two_stage_config 0 = Inl ZeroDivisionError \<and>
     simulate_gradual_sell two_stage_config 0 = Inl ZeroDivisionError \<and>
     simulate_partial_exit two_stage_config 0 1 = Inl ZeroDivisionError"
    by blast
  from t1 h4 have c3: "simulate_price_series zero_entry_config 1 [1] = Inl ZeroDivisionError"
    by blast
  from t3 h5 have c4: "\<exists>r. simulate_single_sell negative_entry_config 1 = Inr r"
    by blast
  from h1 h2 h3 h4 h5 c1 c2 c3 c4 show ?thesis by blast
qed

text \<open>
  C3 as stated fails: with entry price -4 (take-profit 50, no fee) and quantity 1 the
  single sell raises no error and returns a net return of 50 percent, and a walk with
  quantity 0 returns its summary.
\<close>

theorem degenerate_configuration_counterexample:
  "entry_price negative_entry_config = - 4 \<and>
   map_sum id total_net_return_pct (simulate_single_sell negative_entry_config 1) = Inr 50 \<and>
   simulate_price_series default_config 0 [36] =
     Inr [SUMMARY \<lparr>total_realized_pnl = 0, sum_total_fees = 0, sum_remaining_qty = 0,
                   remaining_pct = 0, return_pct = 0, sum_status = COMPLETED\<rparr>]"
  by (simp add: engine_defs negative_entry_config_def simulate_price_series_def tick_step_def
      init_walker_def check_done_def change_pct_def make_summary_def py_round_def)

subsection \<open>One tick of the walker\<close>

lemma scan_lots_Some:
  "scan_lots ch k ls = Some (i, lot) \<Longrightarrow>
   k \<le> i \<and> i - k < length ls \<and> lot = ls ! (i - k) \<and> \<not> executed lot \<and> tp_pct lot \<le> ch \<and>
   (\<forall>j < i - k. executed (ls ! j) \<or> ch < tp_pct (ls ! j))"
proof (induction ls arbitrary: k)
  case Nil
  then show ?case by simp
next
  case (Cons l ls)
  show ?case
  proof (cases "\<not> executed l \<and> tp_pct l \<le> ch")
    case True
    with Cons.prems show ?thesis by simp
  next
    case False
    with Cons.prems have "scan_lots ch (Suc k) ls = Some (i, lot)" by (auto split: if_splits)
    from Cons.IH [OF this] have ih: "Suc k \<le> i" "i - Suc k < length ls"
      "lot = ls ! (i - Suc k)" "\<not> executed lot" "tp_pct lot \<le> ch"
      "\<forall>j < i - Suc k. executed (ls ! j) \<or> ch < tp_pct (ls ! j)" by blast+
    from ih(1) have d: "i - k = Suc (i - Suc k)" by simp
    have "\<forall>j < Suc (i - Suc k). executed ((l # ls) ! j) \<or> ch < tp_pct ((l # ls) ! j)"
    proof (intro allI impI)
      fix j assume "j < Suc (i - Suc k)"
      with ih(6) False show "executed ((l # ls) ! j) \<or> ch < tp_pct ((l # ls) ! j)"
        by (cases j) auto
    qed
    with ih d show ?thesis by simp
  qed
qed

lemma scan_lots_first:
  "i < length ls \<Longrightarrow> \<not> executed (ls ! i) \<Longrightarrow> tp_pct (ls ! i) \<le> ch \<Longrightarrow>
   \<forall>j<i. executed (ls ! j) \<or> ch < tp_pct (ls ! j) \<Longrightarrow>
   scan_lots ch k ls = Some (k + i, ls ! i)"
proof (induction ls arbitrary: i k)
  case Nil
  then show ?case by simp
next
  case (Cons l ls)
  show ?case
  proof (cases i)
    case 0
    with Cons.prems show ?thesis by simp
  next
    case (Suc n)
    with Cons.prems have skip: "executed l \<or> ch < tp_pct l" by auto
    from Suc Cons.prems have "\<forall>j<n. executed (ls ! j) \<or> ch < tp_pct (ls ! j)" by auto
    with Cons.IH [of n "Suc k"] Suc Cons.prems
    have "scan_lots ch (Suc k) ls = Some (Suc k + n, ls ! n)" by simp
    with skip Suc show ?thesis by auto
  qed
qed


lemma tp_lots_step_cases:
  "tp_lots_step c q t p w = w \<or>
   (\<exists>i<length (lots w). \<not> executed (lots w ! i) \<and> tp_pct (lots w ! i) \<le> change_pct c p \<and>
      (\<forall>j<i. executed (lots w ! j) \<or> change_pct c p < tp_pct (lots w ! j)) \<and>
      tp_lots_step c q t p w = fire_lot c q t p i (lots w ! i) w)"
proof (cases "scan_lots (change_pct c p) 0 (lots w)")
  case None
  then show ?thesis by (simp add: tp_lots_step_def)
next
  case (Some a)
  obtain i lot where a: "a = (i, lot)" by (cases a)
  from scan_lots_Some [of "change_pct c p" 0 "lots w" i lot] Some a
  show ?thesis by (auto simp: tp_lots_step_def)
qed

lemma tick_step_cases:
  assumes "tick_step c q t p w = Inr (fl, w')"
  shows "entry_price c \<noteq> 0 \<and>
    ((change_pct c p \<le> - sl_percent c \<and> remaining_qty w > 0.0001 \<and> q \<noteq> 0 \<and> fl = Break \<and>
        stop_loss_step c q t p w = Inr w') \<or>
     (\<not> (change_pct c p \<le> - sl_percent c \<and> remaining_qty w > 0.0001) \<and> lots w \<noteq> [] \<and>
        (fl, w') = check_done (tp_lots_step c q t p w)) \<or>
     (\<not> (change_pct c p \<le> - sl_percent c \<and> remaining_qty w > 0.0001) \<and> lots w = [] \<and>
        change_pct c p \<ge> tp_percent c \<and> remaining_qty w > 0.0001 \<and> fl = Break \<and>
        w' = take_profit_step c q t p w) \<or>
     (\<not> (change_pct c p \<le> - sl_percent c \<and> remaining_qty w > 0.0001) \<and> lots w = [] \<and>
        \<not> (change_pct c p \<ge> tp_percent c \<and> remaining_qty w > 0.0001) \<and>
        (fl, w') = check_done w))"
proof -
  from assms have e: "entry_price c \<noteq> 0" by (auto simp: tick_step_def split: if_splits)
  show ?thesis
  proof (cases "change_pct c p \<le> - sl_percent c \<and> remaining_qty w > 0.0001")
    case True
    with assms e have "q \<noteq> 0 \<and> fl = Break \<and> stop_loss_step c q t p w = Inr w'"
      by (cases "q = 0") (auto simp: tick_step_def stop_loss_step_def Let_def)
    with True e show ?thesis by blast
  next
    case False
    with assms e show ?thesis
      by (auto simp: tick_step_def split: if_splits)
  qed
qed

lemma fire_lot_simps:
  "lots (fire_lot c q t p i lot w) = (lots w)[i := lot\<lparr>executed := True\<rparr>]"
  "remaining_qty (fire_lot c q t p i lot w) = remaining_qty w - q * (sell_pct lot / 100)"
  by (simp_all add: fire_lot_def Let_def)

lemma stop_loss_step_lots: "stop_loss_step c q t p w = Inr w' \<Longrightarrow> lots w' = lots w \<and> remaining_qty w' = 0"
  by (auto simp: stop_loss_step_def Let_def split: if_splits)

lemma take_profit_step_lots:
  "lots (take_profit_step c q t p w) = lots w" "remaining_qty (take_profit_step c q t p w) = 0"
  by (simp_all add: take_profit_step_def Let_def)

lemma check_done_snd: "(fl, w') = check_done w \<Longrightarrow> w' = w"
  by (auto simp: check_done_def split: if_splits)

lemmas walker_defs =
  tick_step_def stop_loss_step_def tp_lots_step_def fire_lot_def take_profit_step_def
  check_done_def change_pct_def init_walker_def make_summary_def py_round_def
  init_total_cost_def default_config_def mk_lot_def Let_def

text \<open>What one tick does to the stages, from any state.\<close>

lemma tick_step_one_stage:
  "(tick_step c q tick price w = Inr (fl, w') \<longrightarrow>
      lots w' = lots w \<or>
      (\<exists>i<length (lots w). \<not> executed (lots w ! i) \<and> tp_pct (lots w ! i) \<le> change_pct c price \<and>
         (\<forall>j<i. executed (lots w ! j) \<or> change_pct c price < tp_pct (lots w ! j)) \<and>
         lots w' = (lots w)[i := (lots w ! i)\<lparr>executed := True\<rparr>])) \<and>
   (entry_price c \<noteq> 0 \<and>
    \<not> (change_pct c price \<le> - sl_percent c \<and> remaining_qty w > 0.0001) \<and>
    i < length (lots w) \<and> \<not> executed (lots w ! i) \<and> tp_pct (lots w ! i) \<le> change_pct c price \<and>
    (\<forall>j<i. executed (lots w ! j) \<or> change_pct c price < tp_pct (lots w ! j)) \<longrightarrow>
      (let lot = lots w ! i;
           lot_qty = q * (sell_pct lot / 100);
           lot_cost = (entry_price c * q) * (sell_pct lot / 100);
           profit = lot_qty * price - lot_cost;
           f = lot_qty * price * (fee_percent c / 100);
           w2 = w\<lparr>lots := (lots w)[i := lot\<lparr>executed := True\<rparr>],
                  remaining_qty := remaining_qty w - lot_qty,
                  total_realized := total_realized w + (profit - f),
                  walk_total_fees := walk_total_fees w + f,
                  events := events w @
                    [Trade \<lparr>ev_tick = tick, ev_price = price,
                            ev_change_pct = py_round (change_pct c price) 2,
                            event = TP_LOT (i + 1), sell_qty = py_round lot_qty 8,
                            ev_sell_pct = sell_pct lot, ev_tp_pct = Some (tp_pct lot),
                            gross_pnl = py_round profit 2, ev_fee = py_round f 2,
                            net_pnl = py_round (profit - f) 2\<rparr>]\<rparr>
       in tick_step c q tick price w =
            Inr (if remaining_qty w2 \<le> 0.0001 then Break else Continue, w2) \<and>
          (\<forall>j<length (lots w). j \<noteq> i \<longrightarrow> executed (lots w2 ! j) = executed (lots w ! j))))"
proof -
  have p1: "lots w' = lots w \<or>
      (\<exists>i<length (lots w). \<not> executed (lots w ! i) \<and> tp_pct (lots w ! i) \<le> change_pct c price \<and>
         (\<forall>j<i. executed (lots w ! j) \<or> change_pct c price < tp_pct (lots w ! j)) \<and>
         lots w' = (lots w)[i := (lots w ! i)\<lparr>executed := True\<rparr>])"
    if st: "tick_step c q tick price w = Inr (fl, w')"
  proof -
    from tick_step_cases [OF st] consider
      (sl) "stop_loss_step c q tick price w = Inr w'"
      | (stages) "(fl, w') = check_done (tp_lots_step c q tick price w)"
      | (tp) "w' = take_profit_step c q tick price w"
      | (none) "(fl, w') = check_done w"
      by blast
    then show ?thesis
    proof cases
      case sl
      then show ?thesis by (simp add: stop_loss_step_lots)
    next
      case stages
      then have "w' = tp_lots_step c q tick price w" by (rule check_done_snd)
      with tp_lots_step_cases [of c q tick price w] show ?thesis
        by (auto simp: fire_lot_simps)
    next
      case tp
      then show ?thesis by (simp add: take_profit_step_lots)
    next
      case none
      then have "w' = w" by (rule check_done_snd)
      then show ?thesis by simp
    qed
  qed
  have p2: "(let lot = lots w ! i;
           lot_qty = q * (sell_pct lot / 100);
           lot_cost = (entry_price c * q) * (sell_pct lot / 100);
           profit = lot_qty * price - lot_cost;
           f = lot_qty * price * (fee_percent c / 100);
           w2 = w\<lparr>lots := (lots w)[i := lot\<lparr>executed := True\<rparr>],
                  remaining_qty := remaining_qty w - lot_qty,
                  total_realized := total_realized w + (profit - f),
                  walk_total_fees := walk_total_fees w + f,
                  events := events w @
                    [Trade \<lparr>ev_tick = tick, ev_price = price,
                            ev_change_pct = py_round (change_pct c price) 2,
                            event = TP_LOT (i + 1), sell_qty = py_round lot_qty 8,
                            ev_sell_pct = sell_pct lot, ev_tp_pct = Some (tp_pct lot),
                            gross_pnl = py_round profit 2, ev_fee = py_round f 2,
                            net_pnl = py_round (profit - f) 2\<rparr>]\<rparr>
       in tick_step c q tick price w =
            Inr (if remaining_qty w2 \<le> 0.0001 then Break else Continue, w2) \<and>
          (\<forall>j<length (lots w). j \<noteq> i \<longrightarrow> executed (lots w2 ! j) = executed (lots w ! j)))"
    if e: "entry_price c \<noteq> 0"
      and nsl: "\<not> (change_pct c price \<le> - sl_percent c \<and> remaining_qty w > 0.0001)"
      and i: "i < length (lots w)" "\<not> executed (lots w ! i)"
        "tp_pct (lots w ! i) \<le> change_pct c price"
        "\<forall>j<i. executed (lots w ! j) \<or> change_pct c price < tp_pct (lots w ! j)"
  proof -
    from i(1) have ne: "lots w \<noteq> []" by auto
    from scan_lots_first [OF i, of 0]
    have "tp_lots_step c q tick price w = fire_lot c q tick price i (lots w ! i) w"
      by (simp add: tp_lots_step_def)
    with e nsl ne
    have "tick_step c q tick price w =
       Inr (check_done (fire_lot c q tick price i (lots w ! i) w))"
      unfolding tick_step_def by (simp only: if_False if_True simp_thms)
    then show ?thesis
      by (simp add: check_done_def fire_lot_def Let_def init_total_cost_def)
  qed
  from p1 p2 show ?thesis by blast
qed


subsection \<open>Invariants of the walk\<close>

lemma tick_step_total:
  assumes "entry_price c \<noteq> 0" and "q = 0 \<longrightarrow> remaining_qty w = 0"
  shows "\<exists>fl w'. tick_step c q t p w = Inr (fl, w')"
proof (cases "change_pct c p \<le> - sl_percent c \<and> remaining_qty w > 0.0001")
  case True
  with assms(2) have "q \<noteq> 0" by auto
  with True assms(1) show ?thesis
    by (simp add: tick_step_def stop_loss_step_def Let_def)
next
  case False
  with assms(1) show ?thesis
    unfolding tick_step_def by (simp only: if_False if_True simp_thms) (auto simp: prod_eq_iff)
qed

lemma tick_step_remaining:
  assumes "tick_step c q t p w = Inr (fl, w')"
  shows "(lots w' = lots w \<and>
      (remaining_qty w' = remaining_qty w \<or>
       remaining_qty w' = 0 \<and> remaining_qty w > 0.0001 \<and> fl = Break)) \<or>
     (\<exists>i<length (lots w). \<not> executed (lots w ! i) \<and>
        lots w' = (lots w)[i := (lots w ! i)\<lparr>executed := True\<rparr>] \<and>
        remaining_qty w' = remaining_qty w - q * (sell_pct (lots w ! i) / 100))"
proof -
  from tick_step_cases [OF assms] consider
    (sl) "remaining_qty w > 0.0001" "fl = Break" "stop_loss_step c q t p w = Inr w'"
    | (stages) "(fl, w') = check_done (tp_lots_step c q t p w)"
    | (tp) "remaining_qty w > 0.0001" "fl = Break" "w' = take_profit_step c q t p w"
    | (none) "(fl, w') = check_done w"
    by blast
  then show ?thesis
  proof cases
    case sl
    then show ?thesis by (simp add: stop_loss_step_lots)
  next
    case stages
    then have "w' = tp_lots_step c q t p w" by (rule check_done_snd)
    with tp_lots_step_cases [of c q t p w] show ?thesis
      by (auto simp: fire_lot_simps)
  next
    case tp
    then show ?thesis by (simp add: take_profit_step_lots)
  next
    case none
    then have "w' = w" by (rule check_done_snd)
    then show ?thesis by simp
  qed
qed

lemma tick_step_zero_qty:
  assumes "tick_step c q t p w = Inr (fl, w')" and "q = 0 \<longrightarrow> remaining_qty w = 0"
  shows "q = 0 \<longrightarrow> remaining_qty w' = 0"
  using tick_step_remaining [OF assms(1)] assms(2) by auto

lemma fire_lot_events:
  "\<exists>tr. events (fire_lot c q t p i lot w) = events w @ [Trade tr] \<and> event tr = TP_LOT (i + 1)"
  by (simp add: fire_lot_def Let_def)

lemma tick_step_events:
  assumes "tick_step c q t p w = Inr (fl, w')"
  shows "\<exists>es. events w' = events w @ es \<and> (\<forall>e\<in>set es. \<not> is_summary e) \<and>
     (fl = Continue \<longrightarrow> (\<forall>e\<in>set es. \<not> is_stop_loss e))"
proof -
  from tick_step_cases [OF assms] consider
    (sl) "fl = Break" "stop_loss_step c q t p w = Inr w'"
    | (stages) "(fl, w') = check_done (tp_lots_step c q t p w)"
    | (tp) "fl = Break" "w' = take_profit_step c q t p w"
    | (none) "(fl, w') = check_done w"
    by blast
  then show ?thesis
  proof cases
    case sl
    then show ?thesis by (auto simp: stop_loss_step_def Let_def split: if_splits)
  next
    case stages
    then have w': "w' = tp_lots_step c q t p w" by (rule check_done_snd)
    from tp_lots_step_cases [of c q t p w] show ?thesis
    proof
      assume "tp_lots_step c q t p w = w"
      with w' show ?thesis by simp
    next
      assume "\<exists>i<length (lots w). \<not> executed (lots w ! i) \<and> tp_pct (lots w ! i) \<le> change_pct c p \<and>
        (\<forall>j<i. executed (lots w ! j) \<or> change_pct c p < tp_pct (lots w ! j)) \<and>
        tp_lots_step c q t p w = fire_lot c q t p i (lots w ! i) w"
      then obtain i where "tp_lots_step c q t p w = fire_lot c q t p i (lots w ! i) w" by blast
      with w' fire_lot_events [of c q t p i "lots w ! i" w] show ?thesis by auto
    qed
  next
    case tp
    then show ?thesis by (simp add: take_profit_step_def Let_def)
  next
    case none
    then have "w' = w" by (rule check_done_snd)
    then show ?thesis by simp
  qed
qed

lemma walk_total:
  "entry_price c \<noteq> 0 \<Longrightarrow> q = 0 \<longrightarrow> remaining_qty w = 0 \<Longrightarrow> \<exists>fl w'. walk c q t ps w = Inr (fl, w')"
proof (induction ps arbitrary: t w)
  case Nil
  show ?case by simp
next
  case (Cons p ps)
  from tick_step_total [OF Cons.prems] obtain fl w1 where
    st: "tick_step c q t p w = Inr (fl, w1)" by blast
  show ?case
  proof (cases fl)
    case Continue
    from tick_step_zero_qty [OF st Cons.prems(2)] Cons.IH [OF Cons.prems(1), of w1 "Suc t"]
    obtain fl' w' where "walk c q (Suc t) ps w1 = Inr (fl', w')" by blast
    with st Continue show ?thesis by simp
  next
    case Break
    with st show ?thesis by simp
  qed
qed

lemma walk_Cons_Inr:
  assumes "walk c q t (p # ps) w = Inr (fl, w')"
  shows "(tick_step c q t p w = Inr (Break, w') \<and> fl = Break) \<or>
     (\<exists>w1. tick_step c q t p w = Inr (Continue, w1) \<and> walk c q (Suc t) ps w1 = Inr (fl, w'))"
proof (cases "tick_step c q t p w")
  case (Inl e)
  with assms show ?thesis by simp
next
  case (Inr a)
  obtain f1 w1 where "a = (f1, w1)" by (cases a)
  with Inr assms show ?thesis by (cases f1) auto
qed

lemma walk_events:
  "walk c q t ps w = Inr (fl, w') \<Longrightarrow>
   \<exists>es. events w' = events w @ es \<and> (\<forall>e\<in>set es. \<not> is_summary e) \<and>
     (fl = Continue \<longrightarrow> (\<forall>e\<in>set es. \<not> is_stop_loss e))"
proof (induction ps arbitrary: t w)
  case Nil
  then show ?case by simp
next
  case (Cons p ps)
  from walk_Cons_Inr [OF Cons.prems] show ?case
  proof
    assume "tick_step c q t p w = Inr (Break, w') \<and> fl = Break"
    with tick_step_events [of c q t p w Break w'] show ?thesis by simp
  next
    assume "\<exists>w1. tick_step c q t p w = Inr (Continue, w1) \<and> walk c q (Suc t) ps w1 = Inr (fl, w')"
    then obtain w1 where st: "tick_step c q t p w = Inr (Continue, w1)"
      and rest: "walk c q (Suc t) ps w1 = Inr (fl, w')" by blast
    from tick_step_events [OF st] obtain es1 where
      e1: "events w1 = events w @ es1" "\<forall>e\<in>set es1. \<not> is_summary e"
        "\<forall>e\<in>set es1. \<not> is_stop_loss e" by auto
    from Cons.IH [OF rest] obtain es2 where
      e2: "events w' = events w1 @ es2" "\<forall>e\<in>set es2. \<not> is_summary e"
        "fl = Continue \<longrightarrow> (\<forall>e\<in>set es2. \<not> is_stop_loss e)" by auto
    from e1 e2 have "events w' = events w @ (es1 @ es2) \<and> (\<forall>e\<in>set (es1 @ es2). \<not> is_summary e) \<and>
     (fl = Continue \<longrightarrow> (\<forall>e\<in>set (es1 @ es2). \<not> is_stop_loss e))" by auto
    then show ?thesis by blast
  qed
qed

lemma walk_zero_qty:
  "walk c q t ps w = Inr (fl, w') \<Longrightarrow> q = 0 \<longrightarrow> remaining_qty w = 0 \<Longrightarrow>
   q = 0 \<longrightarrow> remaining_qty w' = 0"
proof (induction ps arbitrary: t w)
  case Nil
  then show ?case by simp
next
  case (Cons p ps)
  from walk_Cons_Inr [OF Cons.prems(1)] show ?case
  proof
    assume "tick_step c q t p w = Inr (Break, w') \<and> fl = Break"
    with tick_step_zero_qty [of c q t p w Break w'] Cons.prems(2) show ?thesis by simp
  next
    assume "\<exists>w1. tick_step c q t p w = Inr (Continue, w1) \<and> walk c q (Suc t) ps w1 = Inr (fl, w')"
    then obtain w1 where st: "tick_step c q t p w = Inr (Continue, w1)"
      and rest: "walk c q (Suc t) ps w1 = Inr (fl, w')" by blast
    from Cons.IH [OF rest tick_step_zero_qty [OF st Cons.prems(2)]] show ?thesis .
  qed
qed

lemma walk_append:
  "walk c q t (xs @ ys) w =
     (case walk c q t xs w of
        Inl e \<Rightarrow> Inl e
      | Inr (Break, w') \<Rightarrow> Inr (Break, w')
      | Inr (Continue, w') \<Rightarrow> walk c q (t + length xs) ys w')"
proof (induction xs arbitrary: t w)
  case Nil
  show ?case by simp
next
  case (Cons x xs)
  show ?case
  proof (cases "tick_step c q t x w")
    case (Inl e)
    then show ?thesis by simp
  next
    case (Inr a)
    obtain f1 w1 where a: "a = (f1, w1)" by (cases a)
    show ?thesis
    proof (cases f1)
      case Continue
      with Inr a Cons.IH [of "Suc t" w1] show ?thesis
        by (simp split: sum.splits flow.splits)
    next
      case Break
      with Inr a show ?thesis by simp
    qed
  qed
qed

subsection \<open>One stage per tick\<close>

lemma walk_snoc:
  assumes "walk c q 0 pre w0 = Inr (Continue, w)"
  shows "walk c q 0 (pre @ price # rest) w0 =
     (case tick_step c q (length pre) price w of
        Inl e \<Rightarrow> Inl e
      | Inr (Break, w') \<Rightarrow> Inr (Break, w')
      | Inr (Continue, w') \<Rightarrow> walk c q (Suc (length pre)) rest w')"
  by (simp add: walk_append assms)

text \<open>
  C2. In \<open>simulate_price_series\<close>, whatever ticks the walk has evaluated before, the next
  tick executes at most one stage, and the one it executes is the first stage in configured
  order that is pending and whose threshold the change has reached. When the stop-loss
  check does not fire and stage \<open>i\<close> is that first stage, the tick sells
  \<open>q * sell_pct / 100\<close> at the tick's price, appends \<open>TP_LOT (i + 1)\<close> to the log, marks
  stage \<open>i\<close> executed and leaves the flag of every other stage as it was, also of those
  whose threshold is reached at this tick: the walk goes on to the later prices from that
  state (unless the remaining quantity is at most 0.0001).
\<close>

theorem one_stage_per_tick:
  "(walk c q 0 pre (init_walker c q) = Inr (Continue, w) \<and>
    walk c q 0 (pre @ [price]) (init_walker c q) = Inr (fl, w') \<longrightarrow>
      lots w' = lots w \<or>
      (\<exists>i<length (lots w). \<not> executed (lots w ! i) \<and> tp_pct (lots w ! i) \<le> change_pct c price \<and>
         (\<forall>j<i. executed (lots w ! j) \<or> change_pct c price < tp_pct (lots w ! j)) \<and>
         lots w' = (lots w)[i := (lots w ! i)\<lparr>executed := True\<rparr>])) \<and>
   (walk c q 0 pre (init_walker c q) = Inr (Continue, w) \<and> entry_price c \<noteq> 0 \<and>
    \<not> (change_pct c price \<le> - sl_percent c \<and> remaining_qty w > 0.0001) \<and>
    i < length (lots w) \<and> \<not> executed (lots w ! i) \<and> tp_pct (lots w ! i) \<le> change_pct c price \<and>
    (\<forall>j<i. executed (lots w ! j) \<or> change_pct c price < tp_pct (lots w ! j)) \<longrightarrow>
      (let lot = lots w ! i;
           lot_qty = q * (sell_pct lot / 100);
           lot_cost = (entry_price c * q) * (sell_pct lot / 100);
           profit = lot_qty * price - lot_cost;
           f = lot_qty * price * (fee_percent c / 100);
           ev = Trade \<lparr>ev_tick = length pre, ev_price = price,
                        ev_change_pct = py_round (change_pct c price) 2,
                        event = TP_LOT (i + 1), sell_qty = py_round lot_qty 8,
                        ev_sell_pct = sell_pct lot, ev_tp_pct = Some (tp_pct lot),
                        gross_pnl = py_round profit 2, ev_fee = py_round f 2,
                        net_pnl = py_round (profit - f) 2\<rparr>;
           w2 = w\<lparr>lots := (lots w)[i := lot\<lparr>executed := True\<rparr>],
                  remaining_qty := remaining_qty w - lot_qty,
                  total_realized := total_realized w + (profit - f),
                  walk_total_fees := walk_total_fees w + f,
                  events := events w @ [ev]\<rparr>
       in walk c q 0 (pre @ [price]) (init_walker c q) =
            Inr (if remaining_qty w2 \<le> 0.0001 then Break else Continue, w2) \<and>
          walk c q 0 (pre @ price # rest) (init_walker c q) =
            (if remaining_qty w2 \<le> 0.0001 then Inr (Break, w2)
             else walk c q (Suc (length pre)) rest w2) \<and>
          simulate_price_series c q (pre @ [price]) =
            Inr (events w @ [ev, SUMMARY (make_summary c q w2)]) \<and>
          (\<forall>j<length (lots w). j \<noteq> i \<longrightarrow> executed (lots w2 ! j) = executed (lots w ! j))))"
proof -
  have p1: "lots w' = lots w \<or>
      (\<exists>i<length (lots w). \<not> executed (lots w ! i) \<and> tp_pct (lots w ! i) \<le> change_pct c price \<and>
         (\<forall>j<i. executed (lots w ! j) \<or> change_pct c price < tp_pct (lots w ! j)) \<and>
         lots w' = (lots w)[i := (lots w ! i)\<lparr>executed := True\<rparr>])"
    if pre: "walk c q 0 pre (init_walker c q) = Inr (Continue, w)"
      and nxt: "walk c q 0 (pre @ [price]) (init_walker c q) = Inr (fl, w')"
  proof -
    from nxt walk_snoc [OF pre, of price "[]"]
    have "\<exists>fl'. tick_step c q (length pre) price w = Inr (fl', w')"
      by (auto split: sum.splits flow.splits)
    then obtain fl' where "tick_step c q (length pre) price w = Inr (fl', w')" by blast
    with tick_step_one_stage [of c q "length pre" price w fl' w'] show ?thesis by blast
  qed
  have p2: "(let lot = lots w ! i;
           lot_qty = q * (sell_pct lot / 100);
           lot_cost = (entry_price c * q) * (sell_pct lot / 100);
           profit = lot_qty * price - lot_cost;
           f = lot_qty * price * (fee_percent c / 100);
           ev = Trade \<lparr>ev_tick = length pre, ev_price = price,
                        ev_change_pct = py_round (change_pct c price) 2,
                        event = TP_LOT (i + 1), sell_qty = py_round lot_qty 8,
                        ev_sell_pct = sell_pct lot, ev_tp_pct = Some (tp_pct lot),
                        gross_pnl = py_round profit 2, ev_fee = py_round f 2,
                        net_pnl = py_round (profit - f) 2\<rparr>;
           w2 = w\<lparr>lots := (lots w)[i := lot\<lparr>executed := True\<rparr>],
                  remaining_qty := remaining_qty w - lot_qty,
                  total_realized := total_realized w + (profit - f),
                  walk_total_fees := walk_total_fees w + f,
                  events := events w @ [ev]\<rparr>
       in walk c q 0 (pre @ [price]) (init_walker c q) =
            Inr (if remaining_qty w2 \<le> 0.0001 then Break else Continue, w2) \<and>
          walk c q 0 (pre @ price # rest) (init_walker c q) =
            (if remaining_qty w2 \<le> 0.0001 then Inr (Break, w2)
             else walk c q (Suc (length pre)) rest w2) \<and>
          simulate_price_series c q (pre @ [price]) =
            Inr (events w @ [ev, SUMMARY (make_summary c q w2)]) \<and>
          (\<forall>j<length (lots w). j \<noteq> i \<longrightarrow> executed (lots w2 ! j) = executed (lots w ! j)))"
    if pre: "walk c q 0 pre (init_walker c q) = Inr (Continue, w)"
      and h: "entry_price c \<noteq> 0 \<and>
        \<not> (change_pct c price \<le> - sl_percent c \<and> remaining_qty w > 0.0001) \<and>
        i < length (lots w) \<and> \<not> executed (lots w ! i) \<and>
        tp_pct (lots w ! i) \<le> change_pct c price \<and>
        (\<forall>j<i. executed (lots w ! j) \<or> change_pct c price < tp_pct (lots w ! j))"
  proof -
    define w2 where "w2 = fire_lot c q (length pre) price i (lots w ! i) w"
    define fl2 where "fl2 = (if remaining_qty w2 \<le> 0.0001 then Break else Continue)"
    from tick_step_one_stage [of c q "length pre" price w _ _ i] h
    have st: "tick_step c q (length pre) price w = Inr (fl2, w2)"
      and oth: "\<forall>j<length (lots w). j \<noteq> i \<longrightarrow> executed (lots w2 ! j) = executed (lots w ! j)"
      by (simp_all add: w2_def fl2_def fire_lot_def Let_def init_total_cost_def)
    from st walk_snoc [OF pre, of price "[]"]
    have a: "walk c q 0 (pre @ [price]) (init_walker c q) = Inr (fl2, w2)"
      by (cases fl2) simp_all
    from st walk_snoc [OF pre, of price rest]
    have b: "walk c q 0 (pre @ price # rest) (init_walker c q) =
      (if remaining_qty w2 \<le> 0.0001 then Inr (Break, w2)
       else walk c q (Suc (length pre)) rest w2)"
      by (simp add: fl2_def)
    from a have s: "simulate_price_series c q (pre @ [price]) =
      Inr (events w2 @ [SUMMARY (make_summary c q w2)])"
      by (simp add: simulate_price_series_def)
    from a b s oth show ?thesis
      unfolding fl2_def w2_def
      by (simp add: fire_lot_def Let_def init_total_cost_def)
  qed
  from p1 p2 show ?thesis by blast
qed

theorem one_stage_per_tick_witness:
  "(walk two_stage_config 1 0 [100] (init_walker two_stage_config 1) =
      Inr (Continue, init_walker two_stage_config 1) \<and>
    entry_price two_stage_config \<noteq> 0 \<and>
    \<not> (change_pct two_stage_config 125 \<le> - sl_percent two_stage_config \<and>
         remaining_qty (init_walker two_stage_config 1) > 0.0001) \<and>
    0 < length (lots (init_walker two_stage_config 1)) \<and>
    \<not> executed (lots (init_walker two_stage_config 1) ! 0) \<and>
    tp_pct (lots (init_walker two_stage_config 1) ! 0) \<le> change_pct two_stage_config 125 \<and>
    tp_pct (lots (init_walker two_stage_config 1) ! 1) \<le> change_pct two_stage_config 125) \<and>
   walk two_stage_config 1 0 ([100] @ [125]) (init_walker two_stage_config 1) =
     Inr (Continue,
          \<lparr>lots = [\<lparr>sell_pct = 50, tp_pct = 10, executed = True\<rparr>,
                   \<lparr>sell_pct = 50, tp_pct = 20, executed = False\<rparr>],
           remaining_qty = 1 / 2, total_realized = 195 / 16, walk_total_fees = 5 / 16,
           events = [Trade \<lparr>ev_tick = 1, ev_price = 125, ev_change_pct = 25,
                            event = TP_LOT 1, sell_qty = 1 / 2, ev_sell_pct = 50,
                            ev_tp_pct = Some 10, gross_pnl = 25 / 2, ev_fee = 31 / 100,
                            net_pnl = 1219 / 100\<rparr>]\<rparr>) \<and>
   simulate_price_series two_stage_config 1 ([100] @ [125]) =
     Inr [Trade \<lparr>ev_tick = 1, ev_price = 125, ev_change_pct = 25, event = TP_LOT 1,
                 sell_qty = 1 / 2, ev_sell_pct = 50, ev_tp_pct = Some 10,
                 gross_pnl = 25 / 2, ev_fee = 31 / 100, net_pnl = 1219 / 100\<rparr>,
          SUMMARY \<lparr>total_realized_pnl = 1219 / 100, sum_total_fees = 31 / 100,
                   sum_remaining_qty = 1 / 2, remaining_pct = 50,
                   return_pct = 1219 / 100, sum_status = OPEN\<rparr>] \<and>
   walk two_stage_config 1 0 ([100] @ 125 # [110, 120]) (init_walker two_stage_config 1) =
     Inr (Break,
          \<lparr>lots = [\<lparr>sell_pct = 50, tp_pct = 10, executed = True\<rparr>,
                   \<lparr>sell_pct = 50, tp_pct = 20, executed = True\<rparr>],
           remaining_qty = 0, total_realized = 1751 / 80, walk_total_fees = 49 / 80,
           events = [Trade \<lparr>ev_tick = 1, ev_price = 125, ev_change_pct = 25,
                            event = TP_LOT 1, sell_qty = 1 / 2, ev_sell_pct = 50,
                            ev_tp_pct = Some 10, gross_pnl = 25 / 2, ev_fee = 31 / 100,
                            net_pnl = 1219 / 100\<rparr>,
                     Trade \<lparr>ev_tick = 3, ev_price = 120, ev_change_pct = 20,
                            event = TP_LOT 2, sell_qty = 1 / 2, ev_sell_pct = 50,
                            ev_tp_pct = Some 20, gross_pnl = 10, ev_fee = 3 / 10,
                            net_pnl = 97 / 10\<rparr>]\<rparr>) \<and>
   (lots (snd (projr (walk two_stage_config 1 0 ([100] @ [125]) (init_walker two_stage_config 1))))
      = lots (init_walker two_stage_config 1) \<or>
    (\<exists>i<length (lots (init_walker two_stage_config 1)).
       lots (snd (projr (walk two_stage_config 1 0 ([100] @ [125]) (init_walker two_stage_config 1))))
         = (lots (init_walker two_stage_config 1))
             [i := (lots (init_walker two_stage_config 1) ! i)\<lparr>executed := True\<rparr>]))"
proof -
  let ?c = two_stage_config
  let ?w = "init_walker two_stage_config 1"
  let ?w2 = "\<lparr>lots = [\<lparr>sell_pct = 50, tp_pct = 10, executed = True\<rparr>,
                   \<lparr>sell_pct = 50, tp_pct = 20, executed = False\<rparr>],
           remaining_qty = 1 / 2, total_realized = 195 / 16, walk_total_fees = 5 / 16,
           events = [Trade \<lparr>ev_tick = 1, ev_price = 125, ev_change_pct = 25,
                            event = TP_LOT 1, sell_qty = 1 / 2, ev_sell_pct = 50,
                            ev_tp_pct = Some 10, gross_pnl = 25 / 2, ev_fee = 31 / 100,
                            net_pnl = 1219 / 100\<rparr>]\<rparr>"
  have pre: "walk ?c 1 0 [100] ?w = Inr (Continue, ?w)"
    by (simp add: walker_defs two_stage_config_def)
  have h: "entry_price ?c \<noteq> 0 \<and>
    \<not> (change_pct ?c 125 \<le> - sl_percent ?c \<and> remaining_qty ?w > 0.0001) \<and>
    0 < length (lots ?w) \<and> \<not> executed (lots ?w ! 0) \<and>
    tp_pct (lots ?w ! 0) \<le> change_pct ?c 125 \<and>
    (\<forall>j<0. executed (lots ?w ! j) \<or> change_pct ?c 125 < tp_pct (lots ?w ! j))"
    by (simp add: walker_defs two_stage_config_def)
  have h2: "tp_pct (lots ?w ! 1) \<le> change_pct ?c 125"
    by (simp add: walker_defs two_stage_config_def)
  have w2: "(let lot = lots ?w ! 0;
           lot_qty = 1 * (sell_pct lot / 100);
           lot_cost = (entry_price ?c * 1) * (sell_pct lot / 100);
           profit = lot_qty * 125 - lot_cost;
           f = lot_qty * 125 * (fee_percent ?c / 100);
           ev = Trade \<lparr>ev_tick = length [100::real], ev_price = 125,
                        ev_change_pct = py_round (change_pct ?c 125) 2,
                        event = TP_LOT (0 + 1), sell_qty = py_round lot_qty 8,
                        ev_sell_pct = sell_pct lot, ev_tp_pct = Some (tp_pct lot),
                        gross_pnl = py_round profit 2, ev_fee = py_round f 2,
                        net_pnl = py_round (profit - f) 2\<rparr>
       in ?w\<lparr>lots := (lots ?w)[0 := lot\<lparr>executed := True\<rparr>],
                  remaining_qty := remaining_qty ?w - lot_qty,
                  total_realized := total_realized ?w + (profit - f),
                  walk_total_fees := walk_total_fees ?w + f,
                  events := events ?w @ [ev]\<rparr>) = ?w2"
    by (simp add: init_walker_def two_stage_config_def default_config_def mk_lot_def
        change_pct_def py_round_def Let_def)
  note t = one_stage_per_tick [of ?c 1 "[100]" ?w 125 _ _ 0 "[110, 120]"]
  from t pre h
  have a: "walk ?c 1 0 ([100] @ [125]) ?w = Inr (Continue, ?w2)"
    and b: "walk ?c 1 0 ([100] @ 125 # [110, 120]) ?w = walk ?c 1 (Suc (length [100::real])) [110, 120] ?w2"
    and s: "simulate_price_series ?c 1 ([100] @ [125]) =
       Inr (events ?w @ [Trade \<lparr>ev_tick = 1, ev_price = 125, ev_change_pct = 25, event = TP_LOT 1,
                 sell_qty = 1 / 2, ev_sell_pct = 50, ev_tp_pct = Some 10,
                 gross_pnl = 25 / 2, ev_fee = 31 / 100, net_pnl = 1219 / 100\<rparr>,
             SUMMARY (make_summary ?c 1 ?w2)])"
    unfolding Let_def w2 [unfolded Let_def]
    by (simp_all add: init_walker_def two_stage_config_def default_config_def mk_lot_def
        change_pct_def py_round_def)
  have fin: "walk ?c 1 (Suc (length [100::real])) [110, 120] ?w2 =
     Inr (Break,
          \<lparr>lots = [\<lparr>sell_pct = 50, tp_pct = 10, executed = True\<rparr>,
                   \<lparr>sell_pct = 50, tp_pct = 20, executed = True\<rparr>],
           remaining_qty = 0, total_realized = 1751 / 80, walk_total_fees = 49 / 80,
           events = [Trade \<lparr>ev_tick = 1, ev_price = 125, ev_change_pct = 25,
                            event = TP_LOT 1, sell_qty = 1 / 2, ev_sell_pct = 50,
                            ev_tp_pct = Some 10, gross_pnl = 25 / 2, ev_fee = 31 / 100,
                            net_pnl = 1219 / 100\<rparr>,
                     Trade \<lparr>ev_tick = 3, ev_price = 120, ev_change_pct = 20,
                            event = TP_LOT 2, sell_qty = 1 / 2, ev_sell_pct = 50,
                            ev_tp_pct = Some 20, gross_pnl = 10, ev_fee = 3 / 10,
                            net_pnl = 97 / 10\<rparr>]\<rparr>)"
    by (simp add: walker_defs two_stage_config_def)
  have s': "simulate_price_series ?c 1 ([100] @ [125]) =
     Inr [Trade \<lparr>ev_tick = 1, ev_price = 125, ev_change_pct = 25, event = TP_LOT 1,
                 sell_qty = 1 / 2, ev_sell_pct = 50, ev_tp_pct = Some 10,
                 gross_pnl = 25 / 2, ev_fee = 31 / 100, net_pnl = 1219 / 100\<rparr>,
          SUMMARY \<lparr>total_realized_pnl = 1219 / 100, sum_total_fees = 31 / 100,
                   sum_remaining_qty = 1 / 2, remaining_pct = 50,
                   return_pct = 1219 / 100, sum_status = OPEN\<rparr>]"
    unfolding s
    by (simp add: make_summary_def init_walker_def two_stage_config_def default_config_def
        init_total_cost_def py_round_def Let_def)
  from a have "walk ?c 1 0 ([100] @ [125]) ?w =
      Inr (Continue, snd (projr (walk ?c 1 0 ([100] @ [125]) ?w)))"
    by (simp only: snd_conv sum.sel)
  with one_stage_per_tick [of ?c 1 "[100]" ?w 125 Continue
      "snd (projr (walk ?c 1 0 ([100] @ [125]) ?w))"] pre
  have d: "lots (snd (projr (walk ?c 1 0 ([100] @ [125]) ?w))) = lots ?w \<or>
    (\<exists>i<length (lots ?w). lots (snd (projr (walk ?c 1 0 ([100] @ [125]) ?w)))
         = (lots ?w)[i := (lots ?w ! i)\<lparr>executed := True\<rparr>])"
    by blast
  from pre h h2 a s' b fin d show ?thesis by (simp only:) blast
qed

subsection \<open>The summary entry\<close>

lemma init_walker_simps:
  "events (init_walker c q) = []" "remaining_qty (init_walker c q) = q"
  by (simp_all add: init_walker_def)

text \<open>
  C5 (as amended). Whenever the entry price is non-zero or the price list is empty,
  \<open>simulate_price_series\<close> returns the trade entries of the walk followed by one \<open>SUMMARY\<close>
  entry, and no other entry is a \<open>SUMMARY\<close>. The summary carries the realized net P&L and
  the fees accumulated by the walk (rounded to 2 decimals), the remaining quantity (8
  decimals), its percent of the original quantity (1 decimal; 0 when the quantity is not
  positive), the return percent, realized net P&L over total cost times 100 (2 decimals; 0
  when the total cost is not positive), and status \<open>COMPLETED\<close> exactly when the remaining
  quantity is at most 0.0001, else \<open>OPEN\<close>.
\<close>

theorem summary_entry:
  "entry_price c \<noteq> 0 \<or> prices = [] \<longrightarrow>
   (\<exists>fl w. walk c q 0 prices (init_walker c q) = Inr (fl, w) \<and>
      simulate_price_series c q prices =
        Inr (events w @
          [SUMMARY \<lparr>total_realized_pnl = py_round (total_realized w) 2,
                    sum_total_fees = py_round (walk_total_fees w) 2,
                    sum_remaining_qty = py_round (remaining_qty w) 8,
                    remaining_pct =
                      (if q > 0 then py_round ((remaining_qty w / q) * 100) 1 else 0),
                    return_pct =
                      (if entry_price c * q > 0
                       then py_round ((total_realized w / (entry_price c * q)) * 100) 2
                       else 0),
                    sum_status = (if remaining_qty w \<le> 0.0001 then COMPLETED else OPEN)\<rparr>]) \<and>
      filter is_summary (events w) = [])"
proof (rule impI)
  assume a: "entry_price c \<noteq> 0 \<or> prices = []"
  have "\<exists>fl w. walk c q 0 prices (init_walker c q) = Inr (fl, w)"
  proof (cases "prices = []")
    case True
    then show ?thesis by simp
  next
    case False
    with a have "entry_price c \<noteq> 0" by simp
    then show ?thesis by (intro walk_total) (simp_all add: init_walker_simps)
  qed
  then obtain fl w where w: "walk c q 0 prices (init_walker c q) = Inr (fl, w)" by blast
  from walk_events [OF w] have "\<forall>e\<in>set (events w). \<not> is_summary e"
    by (auto simp: init_walker_simps)
  then have f: "filter is_summary (events w) = []" by (simp add: filter_empty_conv)
  from w have "simulate_price_series c q prices = Inr (events w @ [SUMMARY (make_summary c q w)])"
    by (simp add: simulate_price_series_def)
  with w f show "\<exists>fl w. walk c q 0 prices (init_walker c q) = Inr (fl, w) \<and>
      simulate_price_series c q prices =
        Inr (events w @
          [SUMMARY \<lparr>total_realized_pnl = py_round (total_realized w) 2,
                    sum_total_fees = py_round (walk_total_fees w) 2,
                    sum_remaining_qty = py_round (remaining_qty w) 8,
                    remaining_pct =
                      (if q > 0 then py_round ((remaining_qty w / q) * 100) 1 else 0),
                    return_pct =
                      (if entry_price c * q > 0
                       then py_round ((total_realized w / (entry_price c * q)) * 100) 2
                       else 0),
                    sum_status = (if remaining_qty w \<le> 0.0001 then COMPLETED else OPEN)\<rparr>]) \<and>
      filter is_summary (events w) = []"
    by (auto simp: make_summary_def init_total_cost_def)
qed

theorem summary_entry_witness:
  "entry_price two_stage_config \<noteq> 0 \<and>
   simulate_price_series two_stage_config 1 [125, 110, 120] =
     Inr [Trade \<lparr>ev_tick = 0, ev_price = 125, ev_change_pct = 25, event = TP_LOT 1,
                 sell_qty = 1 / 2, ev_sell_pct = 50, ev_tp_pct = Some 10,
                 gross_pnl = 25 / 2, ev_fee = 31 / 100, net_pnl = 1219 / 100\<rparr>,
          Trade \<lparr>ev_tick = 2, ev_price = 120, ev_change_pct = 20, event = TP_LOT 2,
                 sell_qty = 1 / 2, ev_sell_pct = 50, ev_tp_pct = Some 20,
                 gross_pnl = 10, ev_fee = 3 / 10, net_pnl = 97 / 10\<rparr>,
          SUMMARY \<lparr>total_realized_pnl = 2189 / 100, sum_total_fees = 61 / 100,
                   sum_remaining_qty = 0, remaining_pct = 0, return_pct = 2189 / 100,
                   sum_status = COMPLETED\<rparr>] \<and>
   (\<exists>fl w. walk two_stage_config 1 0 [125, 110, 120] (init_walker two_stage_config 1)
        = Inr (fl, w) \<and>
      simulate_price_series two_stage_config 1 [125, 110, 120] =
        Inr (events w @
          [SUMMARY \<lparr>total_realized_pnl = py_round (total_realized w) 2,
                    sum_total_fees = py_round (walk_total_fees w) 2,
                    sum_remaining_qty = py_round (remaining_qty w) 8,
                    remaining_pct =
                      (if (1::real) > 0 then py_round ((remaining_qty w / 1) * 100) 1 else 0),
                    return_pct =
                      (if entry_price two_stage_config * 1 > 0
                       then py_round ((total_realized w / (entry_price two_stage_config * 1)) * 100) 2
                       else 0),
                    sum_status = (if remaining_qty w \<le> 0.0001 then COMPLETED else OPEN)\<rparr>]) \<and>
      filter is_summary (events w) = [])"
proof -
  have h: "entry_price two_stage_config \<noteq> 0"
    by (simp add: two_stage_config_def default_config_def)
  have v: "simulate_price_series two_stage_config 1 [125, 110, 120] =
     Inr [Trade \<lparr>ev_tick = 0, ev_price = 125, ev_change_pct = 25, event = TP_LOT 1,
                 sell_qty = 1 / 2, ev_sell_pct = 50, ev_tp_pct = Some 10,
                 gross_pnl = 25 / 2, ev_fee = 31 / 100, net_pnl = 1219 / 100\<rparr>,
          Trade \<lparr>ev_tick = 2, ev_price = 120, ev_change_pct = 20, event = TP_LOT 2,
                 sell_qty = 1 / 2, ev_sell_pct = 50, ev_tp_pct = Some 20,
                 gross_pnl = 10, ev_fee = 3 / 10, net_pnl = 97 / 10\<rparr>,
          SUMMARY \<lparr>total_realized_pnl = 2189 / 100, sum_total_fees = 61 / 100,
                   sum_remaining_qty = 0, remaining_pct = 0, return_pct = 2189 / 100,
                   sum_status = COMPLETED\<rparr>]"
    by (simp add: simulate_price_series_def walker_defs two_stage_config_def)
  from summary_entry [of two_stage_config "[125, 110, 120]" 1] h v
  show ?thesis by blast
qed

text \<open>
  C5 as stated fails for a zero entry price: the first tick divides by it and the walk
  raises \<open>ZeroDivisionError\<close>, so no log and no summary is returned.
\<close>

theorem summary_entry_counterexample:
  "simulate_price_series zero_entry_config 1 [1] = Inl ZeroDivisionError"
  by (simp add: simulate_price_series_def tick_step_def zero_entry_config_def
      default_config_def)

subsection \<open>Stop-loss pre-empts take-profit\<close>

text \<open>
  C1. Let the walk have evaluated the ticks \<open>pre\<close> without leaving the loop, reaching
  state \<open>w\<close>, and let the next price have a change at or below minus \<open>sl_percent\<close> while
  \<open>remaining_qty\<close> exceeds 0.0001. Then the tick liquidates the whole remaining quantity
  at that price (cost basis \<open>remaining_qty / q\<close> times the total cost, fee on the sale
  value, net = gross - fee), appends one \<open>STOP_LOSS\<close> entry, the only one of the log, sets
  \<open>remaining_qty\<close> to zero, leaves every stage flag as it was (no take-profit check
  runs), and ends the walk: the result does not depend on the prices that follow.
\<close>

theorem stop_loss_preempts:
  "walk c q 0 pre (init_walker c q) = Inr (Continue, w) \<and> entry_price c \<noteq> 0 \<and>
   change_pct c price \<le> - sl_percent c \<and> remaining_qty w > 0.0001 \<longrightarrow>
   (let sl_value = remaining_qty w * price;
        sl_cost = (remaining_qty w / q) * (entry_price c * q);
        gross = sl_value - sl_cost;
        f = sl_value * (fee_percent c / 100);
        net = gross - f;
        ev = Trade \<lparr>ev_tick = length pre, ev_price = price,
                     ev_change_pct = py_round (change_pct c price) 2, event = STOP_LOSS,
                     sell_qty = py_round (remaining_qty w) 8,
                     ev_sell_pct = py_round ((remaining_qty w / q) * 100) 1,
                     ev_tp_pct = None, gross_pnl = py_round gross 2,
                     ev_fee = py_round f 2, net_pnl = py_round net 2\<rparr>;
        w2 = w\<lparr>events := events w @ [ev],
               total_realized := total_realized w + net,
               walk_total_fees := walk_total_fees w + f,
               remaining_qty := 0\<rparr>
    in q \<noteq> 0 \<and>
       walk c q 0 (pre @ price # rest) (init_walker c q) = Inr (Break, w2) \<and>
       simulate_price_series c q (pre @ price # rest) =
         Inr (events w @ [ev, SUMMARY (make_summary c q w2)]) \<and>
       filter is_stop_loss (events w @ [ev, SUMMARY (make_summary c q w2)]) = [ev] \<and>
       lots w2 = lots w \<and> remaining_qty w2 = 0)"
proof (rule impI)
  assume a: "walk c q 0 pre (init_walker c q) = Inr (Continue, w) \<and> entry_price c \<noteq> 0 \<and>
   change_pct c price \<le> - sl_percent c \<and> remaining_qty w > 0.0001"
  then have pre: "walk c q 0 pre (init_walker c q) = Inr (Continue, w)"
    and e: "entry_price c \<noteq> 0"
    and sl: "change_pct c price \<le> - sl_percent c \<and> remaining_qty w > 0.0001"
    by simp_all
  from walk_zero_qty [OF pre] sl have q: "q \<noteq> 0"
    by (auto simp: init_walker_simps)
  from walk_events [OF pre] have "\<forall>e\<in>set (events w). \<not> is_stop_loss e"
    by (auto simp: init_walker_simps)
  then have nosl: "filter is_stop_loss (events w) = []" by (simp add: filter_empty_conv)
  define w2 where "w2 = projr (stop_loss_step c q (length pre) price w)"
  have s: "stop_loss_step c q (length pre) price w = Inr w2"
    using q by (simp add: w2_def stop_loss_step_def Let_def)
  with e sl have t: "tick_step c q (length pre) price w = Inr (Break, w2)"
    unfolding tick_step_def by (simp only: if_False if_True simp_thms sum.case)
  then have wk: "walk c q 0 (pre @ price # rest) (init_walker c q) = Inr (Break, w2)"
    by (simp add: walk_append pre)
  then have sim: "simulate_price_series c q (pre @ price # rest) =
     Inr (events w2 @ [SUMMARY (make_summary c q w2)])"
    by (simp add: simulate_price_series_def)
  have w2: "w2 = (let sl_value = remaining_qty w * price;
        sl_cost = (remaining_qty w / q) * (entry_price c * q);
        gross = sl_value - sl_cost;
        f = sl_value * (fee_percent c / 100);
        net = gross - f
     in w\<lparr>events := events w @ [Trade \<lparr>ev_tick = length pre, ev_price = price,
                     ev_change_pct = py_round (change_pct c price) 2, event = STOP_LOSS,
                     sell_qty = py_round (remaining_qty w) 8,
                     ev_sell_pct = py_round ((remaining_qty w / q) * 100) 1,
                     ev_tp_pct = None, gross_pnl = py_round gross 2,
                     ev_fee = py_round f 2, net_pnl = py_round net 2\<rparr>],
               total_realized := total_realized w + net,
               walk_total_fees := walk_total_fees w + f,
               remaining_qty := 0\<rparr>)"
    using q by (simp add: w2_def stop_loss_step_def Let_def init_total_cost_def)
  from q wk sim nosl show "let sl_value = remaining_qty w * price;
        sl_cost = (remaining_qty w / q) * (entry_price c * q);
        gross = sl_value - sl_cost;
        f = sl_value * (fee_percent c / 100);
        net = gross - f;
        ev = Trade \<lparr>ev_tick = length pre, ev_price = price,
                     ev_change_pct = py_round (change_pct c price) 2, event = STOP_LOSS,
                     sell_qty = py_round (remaining_qty w) 8,
                     ev_sell_pct = py_round ((remaining_qty w / q) * 100) 1,
                     ev_tp_pct = None, gross_pnl = py_round gross 2,
                     ev_fee = py_round f 2, net_pnl = py_round net 2\<rparr>;
        w2 = w\<lparr>events := events w @ [ev],
               total_realized := total_realized w + net,
               walk_total_fees := walk_total_fees w + f,
               remaining_qty := 0\<rparr>
    in q \<noteq> 0 \<and>
       walk c q 0 (pre @ price # rest) (init_walker c q) = Inr (Break, w2) \<and>
       simulate_price_series c q (pre @ price # rest) =
         Inr (events w @ [ev, SUMMARY (make_summary c q w2)]) \<and>
       filter is_stop_loss (events w @ [ev, SUMMARY (make_summary c q w2)]) = [ev] \<and>
       lots w2 = lots w \<and> remaining_qty w2 = 0"
    unfolding w2 by (simp add: Let_def)
qed


theorem stop_loss_preempts_witness:
  "(walk two_stage_config 1 0 [100, 125, 96] (init_walker two_stage_config 1) =
      Inr (Continue,
           snd (projr (walk two_stage_config 1 0 [100, 125, 96] (init_walker two_stage_config 1)))) \<and>
    entry_price two_stage_config \<noteq> 0 \<and>
    change_pct two_stage_config 95 \<le> - sl_percent two_stage_config \<and>
    remaining_qty
      (snd (projr (walk two_stage_config 1 0 [100, 125, 96] (init_walker two_stage_config 1))))
      > 0.0001) \<and>
   simulate_price_series two_stage_config 1 ([100, 125, 96] @ 95 # [94, 200]) =
     Inr [Trade \<lparr>ev_tick = 1, ev_price = 125, ev_change_pct = 25, event = TP_LOT 1,
                 sell_qty = 1 / 2, ev_sell_pct = 50, ev_tp_pct = Some 10,
                 gross_pnl = 25 / 2, ev_fee = 31 / 100, net_pnl = 1219 / 100\<rparr>,
          Trade \<lparr>ev_tick = 3, ev_price = 95, ev_change_pct = - 5, event = STOP_LOSS,
                 sell_qty = 1 / 2, ev_sell_pct = 50, ev_tp_pct = None,
                 gross_pnl = - (5 / 2), ev_fee = 6 / 25, net_pnl = - (137 / 50)\<rparr>,
          SUMMARY \<lparr>total_realized_pnl = 189 / 20, sum_total_fees = 11 / 20,
                   sum_remaining_qty = 0, remaining_pct = 0, return_pct = 189 / 20,
                   sum_status = COMPLETED\<rparr>]"
proof -
  let ?c = two_stage_config
  let ?w = "snd (projr (walk ?c 1 0 [100, 125, 96] (init_walker ?c 1)))"
  have pre: "walk ?c 1 0 [100, 125, 96] (init_walker ?c 1) =
     Inr (Continue,
       \<lparr>lots = [\<lparr>sell_pct = 50, tp_pct = 10, executed = True\<rparr>,
                \<lparr>sell_pct = 50, tp_pct = 20, executed = False\<rparr>],
        remaining_qty = 1 / 2, total_realized = 195 / 16, walk_total_fees = 5 / 16,
        events = [Trade \<lparr>ev_tick = 1, ev_price = 125, ev_change_pct = 25,
                         event = TP_LOT 1, sell_qty = 1 / 2, ev_sell_pct = 50,
                         ev_tp_pct = Some 10, gross_pnl = 25 / 2, ev_fee = 31 / 100,
                         net_pnl = 1219 / 100\<rparr>]\<rparr>)"
    by (simp add: walker_defs two_stage_config_def)
  have c: "entry_price ?c = 100" "sl_percent ?c = 5" "fee_percent ?c = 1 / 2"
    "change_pct ?c 95 = - 5"
    by (simp_all add: two_stage_config_def default_config_def change_pct_def)
  have h: "walk ?c 1 0 [100, 125, 96] (init_walker ?c 1) = Inr (Continue, ?w) \<and>
    entry_price ?c \<noteq> 0 \<and> change_pct ?c 95 \<le> - sl_percent ?c \<and> remaining_qty ?w > 0.0001"
    unfolding pre by (simp add: c)
  from stop_loss_preempts [of ?c 1 "[100, 125, 96]" ?w 95 "[94, 200]"] h
  have "simulate_price_series ?c 1 ([100, 125, 96] @ 95 # [94, 200]) =
     Inr [Trade \<lparr>ev_tick = 1, ev_price = 125, ev_change_pct = 25, event = TP_LOT 1,
                 sell_qty = 1 / 2, ev_sell_pct = 50, ev_tp_pct = Some 10,
                 gross_pnl = 25 / 2, ev_fee = 31 / 100, net_pnl = 1219 / 100\<rparr>,
          Trade \<lparr>ev_tick = 3, ev_price = 95, ev_change_pct = - 5, event = STOP_LOSS,
                 sell_qty = 1 / 2, ev_sell_pct = 50, ev_tp_pct = None,
                 gross_pnl = - (5 / 2), ev_fee = 6 / 25, net_pnl = - (137 / 50)\<rparr>,
          SUMMARY \<lparr>total_realized_pnl = 189 / 20, sum_total_fees = 11 / 20,
                   sum_remaining_qty = 0, remaining_pct = 0, return_pct = 189 / 20,
                   sum_status = COMPLETED\<rparr>]"
    unfolding pre by (simp add: c Let_def make_summary_def py_round_def init_total_cost_def)
  with h show ?thesis by blast
qed

subsection \<open>Remaining quantity along the walk\<close>

















end
